theory Spec2Isabelle
  imports Main "HOL-Library.Word" "HOL-Library.Char_ord"
begin

unbundle bit_operations_syntax

section \<open>Common definitions (sdi12.h)\<close>

text \<open>
  A C \<open>char\<close> is modelled by the 8-bit type \<^typ>\<open>char\<close>; a buffer \<open>char buf[N]\<close> is a
  \<^typ>\<open>string\<close> of length \<open>N\<close> holding the whole array, terminator and the bytes after it
  included.  \<open>of_char\<close> reads a byte as an unsigned number, as the casts to
  \<open>uint8_t\<close> and \<open>unsigned char\<close> of the source do.
\<close>

definition NUL :: char where
  "NUL = CHR 0x00"

definition CR :: char where
  "CR = CHR 0x0D"

definition LF :: char where
  "LF = CHR 0x0A"

text \<open>\<open>strlen\<close>: the number of bytes before the first NUL of the array.\<close>

definition strlen :: "string \<Rightarrow> nat" where
  "strlen buf = length (takeWhile (\<lambda>c. c \<noteq> NUL) buf)"

text \<open>\<open>store buf pos bs\<close>: the consecutive assignments \<open>buf[pos + i] = bs[i]\<close>
  (also \<open>memcpy (buf + pos, bs, n)\<close>).\<close>

definition store :: "'a list \<Rightarrow> nat \<Rightarrow> 'a list \<Rightarrow> 'a list" where
  "store buf pos bs = take pos buf @ bs @ drop (pos + length bs) buf"

datatype sdi12_err =
    SDI12_OK
  | SDI12_ERR_INVALID_ADDRESS
  | SDI12_ERR_INVALID_COMMAND
  | SDI12_ERR_BUFFER_OVERFLOW
  | SDI12_ERR_NOT_ADDRESSED
  | SDI12_ERR_NO_DATA
  | SDI12_ERR_PARAM_LIMIT
  | SDI12_ERR_CALLBACK_MISSING
  | SDI12_ERR_TIMEOUT
  | SDI12_ERR_CRC_MISMATCH
  | SDI12_ERR_PARSE_FAILED
  | SDI12_ERR_ABORTED

section \<open>CRC-16-IBM (sdi12\_crc.c)\<close>

text \<open>One turn of the inner loop of \<open>sdi12_crc16\<close>: shift right, and fold the
  polynomial \<open>0xA001\<close> in when the bit shifted out was set.\<close>

definition crc16_shift :: "16 word \<Rightarrow> 16 word" where
  "crc16_shift crc =
     (if crc AND 0x0001 \<noteq> 0 then drop_bit 1 crc XOR 0xA001 else drop_bit 1 crc)"

primrec crc16_bits :: "nat \<Rightarrow> 16 word \<Rightarrow> 16 word" where
  "crc16_bits 0 crc = crc"
| "crc16_bits (Suc n) crc = crc16_bits n (crc16_shift crc)"

definition crc16_byte :: "16 word \<Rightarrow> char \<Rightarrow> 16 word" where
  "crc16_byte crc c = crc16_bits 8 (crc XOR of_char c)"

definition sdi12_crc16 :: "string \<Rightarrow> nat \<Rightarrow> 16 word" where
  "sdi12_crc16 data len = foldl crc16_byte 0x0000 (take len data)"

definition sdi12_crc_encode_ascii :: "16 word \<Rightarrow> string" where
  "sdi12_crc_encode_ascii crc =
     [char_of (unat (0x40 OR drop_bit 12 crc)),
      char_of (unat (0x40 OR (drop_bit 6 crc AND 0x3F))),
      char_of (unat (0x40 OR (crc AND 0x3F))),
      NUL]"

text \<open>Where the data of a text response ends: before a trailing CR LF if there is one.\<close>

definition crc_data_end :: "string \<Rightarrow> nat" where
  "crc_data_end buf =
     (let slen = strlen buf
      in if slen \<ge> 2 \<and> buf ! (slen - 2) = CR \<and> buf ! (slen - 1) = LF
         then slen - 2 else slen)"

definition sdi12_crc_append :: "string \<Rightarrow> nat \<Rightarrow> sdi12_err \<times> string" where
  "sdi12_crc_append buf buflen =
     (let data_end = crc_data_end buf
      in if data_end + 3 + 2 + 1 > buflen then (SDI12_ERR_BUFFER_OVERFLOW, buf)
         else
           let crc = sdi12_crc16 buf data_end;
               encoded = sdi12_crc_encode_ascii crc
           in (SDI12_OK,
               store buf data_end
                 [encoded ! 0, encoded ! 1, encoded ! 2, CR, LF, NUL]))"

definition sdi12_crc_verify :: "string \<Rightarrow> nat \<Rightarrow> bool" where
  "sdi12_crc_verify buf len =
     (if len < 6 then False
      else
        let end1 = (if buf ! (len - 1) = LF then len - 1 else len);
            end2 = (if end1 > 0 \<and> buf ! (end1 - 1) = CR then end1 - 1 else end1)
        in if end2 < 3 then False
           else
             let data_end = end2 - 3;
                 computed = sdi12_crc16 buf data_end;
                 expected = sdi12_crc_encode_ascii computed
             in buf ! data_end = expected ! 0 \<and>
                buf ! (data_end + 1) = expected ! 1 \<and>
                buf ! (data_end + 2) = expected ! 2)"

section \<open>Protocol constants and data structures (sdi12.h, sdi12\_sensor.h)\<close>

definition SDI12_PROTOCOL_VERSION :: string where
  "SDI12_PROTOCOL_VERSION = ''14''"

definition SDI12_M_VALUES_MAX_CHARS :: nat where
  "SDI12_M_VALUES_MAX_CHARS = 35"

definition SDI12_C_VALUES_MAX_CHARS :: nat where
  "SDI12_C_VALUES_MAX_CHARS = 75"

definition SDI12_VALUE_MAX_CHARS :: nat where
  "SDI12_VALUE_MAX_CHARS = 9"

definition SDI12_MAX_RESPONSE_LEN :: nat where
  "SDI12_MAX_RESPONSE_LEN = 82"

definition SDI12_MAX_COMMAND_LEN :: nat where
  "SDI12_MAX_COMMAND_LEN = 20"

definition SDI12_CMD_MAX_CHARS :: nat where
  "SDI12_CMD_MAX_CHARS = SDI12_MAX_COMMAND_LEN"

definition SDI12_RESP_MAX_CHARS :: nat where
  "SDI12_RESP_MAX_CHARS = SDI12_MAX_RESPONSE_LEN"

definition SDI12_MAX_MEAS_GROUPS :: nat where
  "SDI12_MAX_MEAS_GROUPS = 10"

definition SDI12_MAX_PARAMS :: nat where
  "SDI12_MAX_PARAMS = 20"

definition SDI12_MAX_XCMDS :: nat where
  "SDI12_MAX_XCMDS = 8"

definition SDI12_RESPONSE_TIMEOUT_MS :: nat where
  "SDI12_RESPONSE_TIMEOUT_MS = 15"

datatype sdi12_dir = SDI12_DIR_RX | SDI12_DIR_TX

datatype sdi12_meas_type =
    SDI12_MEAS_STANDARD
  | SDI12_MEAS_CONCURRENT
  | SDI12_MEAS_HIGHVOL_ASCII
  | SDI12_MEAS_HIGHVOL_BINARY
  | SDI12_MEAS_VERIFICATION
  | SDI12_MEAS_CONTINUOUS

datatype sdi12_state =
    SDI12_STATE_STANDBY
  | SDI12_STATE_READY
  | SDI12_STATE_MEASURING
  | SDI12_STATE_MEASURING_C
  | SDI12_STATE_DATA_READY

text \<open>
  The string fields of the structs below (\<open>char vendor[9]\<close>, \<open>char shef[4]\<close>, ...) hold
  NUL-terminated text and are modelled by that text.  Fields of different structs that
  share a name in the source carry a short prefix here (\<open>p_\<close> for a parameter
  registration, \<open>x_\<close> for an extended command, \<open>cb_\<close> for a callback).
\<close>

record sdi12_ident =
  vendor :: string
  model :: string
  firmware_version :: string
  serial :: string

record sdi12_param_meta =
  shef :: string
  units :: string

text \<open>\<open>sdi12_value_t\<close>.  The type \<open>'f\<close> stands for C's \<open>float\<close>; the functions of
  the C library that read or print one (\<open>snprintf\<close>, \<open>strtod\<close>) are parameters of the
  functions that call them.\<close>

record 'f sdi12_value =
  fvalue :: 'f
  decimals :: nat

definition sdi12_valid_address :: "char \<Rightarrow> bool" where
  "sdi12_valid_address c =
     ((CHR ''0'' \<le> c \<and> c \<le> CHR ''9'') \<or>
      (CHR ''A'' \<le> c \<and> c \<le> CHR ''Z'') \<or>
      (CHR ''a'' \<le> c \<and> c \<le> CHR ''z''))"

text \<open>The callbacks of the sensor.  A function pointer that may be NULL is an
  \<open>option\<close>; a callback that only acts on the host (\<open>send_response\<close>,
  \<open>set_direction\<close>, \<open>save_address\<close>, \<open>service_request\<close>, \<open>on_reset\<close>) is a flag
  saying whether it is installed, and its calls are recorded in the context (below).
  \<open>format_binary_page\<close> receives the page, the data cache, its count and the buffer, and
  returns the number of bytes written with the buffer it leaves.\<close>

record 'f sdi12_sensor_callbacks =
  cb_send_response :: bool
  cb_set_direction :: bool
  cb_read_param :: "(nat \<Rightarrow> 'f sdi12_value) option"
  cb_save_address :: bool
  cb_load_address :: "char option"
  cb_start_measurement :: "(nat \<Rightarrow> sdi12_meas_type \<Rightarrow> nat) option"
  cb_service_request :: bool
  cb_on_reset :: bool
  cb_format_binary_page ::
    "(nat \<Rightarrow> 'f sdi12_value list \<Rightarrow> nat \<Rightarrow> string \<Rightarrow> nat \<times> string) option"

record sdi12_param_reg =
  p_meta :: sdi12_param_meta
  p_group :: nat
  p_decimals :: nat
  p_active :: bool

text \<open>An extended-command handler receives the command text and the response buffer
  and returns its result with the buffer it leaves.\<close>

record sdi12_xcmd_reg =
  x_prefix :: string
  x_handler :: "(string \<Rightarrow> string \<Rightarrow> sdi12_err \<times> string) option"
  x_active :: bool

text \<open>\<open>sdi12_sensor_ctx_t\<close>.  The last three fields are not in the C struct: they
  record what the callbacks were given, in order: the bytes of every \<open>send_response\<close>
  call, the number of \<open>service_request\<close> calls, and the addresses handed to
  \<open>save_address\<close>.\<close>

record 'f sdi12_sensor_ctx =
  address :: char
  ident :: sdi12_ident
  cb :: "'f sdi12_sensor_callbacks"
  params :: "sdi12_param_reg list"
  param_count :: nat
  xcmds :: "sdi12_xcmd_reg list"
  xcmd_count :: nat
  state :: sdi12_state
  pending_meas_type :: sdi12_meas_type
  pending_meas_group :: nat
  crc_requested :: bool
  data_cache :: "'f sdi12_value list"
  data_cache_count :: nat
  data_available :: bool
  resp_buf :: string
  resp_len :: nat
  bus_sent :: "string list"
  bus_service_requests :: nat
  nv_saved :: "char list"

section \<open>Formatting helpers (the \<open>printf\<close> conversions the source uses)\<close>

text \<open>\<open>snprintf (buf, size, ...)\<close> for an output text \<open>s\<close>: at most \<open>size - 1\<close> bytes
  and the terminator.\<close>

definition snprintf :: "string \<Rightarrow> nat \<Rightarrow> string \<Rightarrow> string" where
  "snprintf buf n s = store buf 0 (take (n - 1) s @ [NUL])"

definition digit_char :: "nat \<Rightarrow> char" where
  "digit_char d = char_of (of_char (CHR ''0'') + d)"

text \<open>\<open>%u\<close>\<close>

fun fmt_u :: "nat \<Rightarrow> string" where
  "fmt_u n = (if n < 10 then [digit_char n] else fmt_u (n div 10) @ [digit_char (n mod 10)])"

text \<open>\<open>%0wu\<close>\<close>

definition fmt_0u :: "nat \<Rightarrow> nat \<Rightarrow> string" where
  "fmt_0u w n = replicate (w - length (fmt_u n)) (CHR ''0'') @ fmt_u n"

text \<open>\<open>%-w.ws\<close>: at most \<open>w\<close> bytes of the string, padded with spaces on the right.\<close>

definition fmt_pad :: "nat \<Rightarrow> string \<Rightarrow> string" where
  "fmt_pad w s = take w s @ replicate (w - length (take w s)) (CHR '' '')"

definition is_digit :: "char \<Rightarrow> bool" where
  "is_digit c = (CHR ''0'' \<le> c \<and> c \<le> CHR ''9'')"

text \<open>\<open>c - '0'\<close> for a digit \<open>c\<close>\<close>

definition digit_val :: "char \<Rightarrow> nat" where
  "digit_val c = of_char c - of_char (CHR ''0'')"

text \<open>\<open>isprint\<close> in the C locale\<close>

definition isprint :: "char \<Rightarrow> bool" where
  "isprint c = (CHR 0x20 \<le> c \<and> c \<le> CHR 0x7E)"

text \<open>\<open>cmd[i]\<close> for a command buffer of \<open>length cmd\<close> bytes: the buffer is
  NUL-terminated (sdi12\_sensor.h), so the byte after the last is NUL.\<close>

definition at :: "string \<Rightarrow> nat \<Rightarrow> char" where
  "at cmd i = (if i < length cmd then cmd ! i else NUL)"

section \<open>Sensor: internal helpers (sdi12\_sensor.c)\<close>

text \<open>The entries \<open>params[0 .. param_count - 1]\<close> with their indices.\<close>

definition param_slots :: "('f, 'z) sdi12_sensor_ctx_scheme \<Rightarrow> (nat \<times> sdi12_param_reg) list" where
  "param_slots ctx = take (param_count ctx) (zip [0 ..< length (params ctx)] (params ctx))"

definition in_group :: "nat \<Rightarrow> nat \<times> sdi12_param_reg \<Rightarrow> bool" where
  "in_group g ip = (p_active (snd ip) \<and> p_group (snd ip) = g)"

definition count_group :: "('f, 'z) sdi12_sensor_ctx_scheme \<Rightarrow> nat \<Rightarrow> nat" where
  "count_group ctx g = length (filter (in_group g) (param_slots ctx)) mod 256"

definition collect_group_indices :: "('f, 'z) sdi12_sensor_ctx_scheme \<Rightarrow> nat \<Rightarrow> nat \<Rightarrow> nat list" where
  "collect_group_indices ctx g max_n = take max_n (map fst (filter (in_group g) (param_slots ctx)))"

text \<open>
  \<open>format_value\<close>.  The parameter \<open>fmt\<close> is the text the \<open>snprintf\<close> call prints for a
  value when it has room (sign, digits, decimal point).  The result is the return value
  of \<open>snprintf\<close> (the length of that text) and the array \<open>vbuf\<close> of \<open>buflen\<close> bytes;
  its bytes after the terminator are read as NUL.
\<close>

definition format_value :: "('f sdi12_value \<Rightarrow> string) \<Rightarrow> nat \<Rightarrow> 'f sdi12_value \<Rightarrow> int \<times> string" where
  "format_value fmt buflen v =
     (int (length (fmt v)),
      take (buflen - 1) (fmt v) @ replicate (buflen - length (take (buflen - 1) (fmt v))) NUL)"

text \<open>One turn of the loop of \<open>format_data_page\<close> for the cached value \<open>v\<close>, on
  the loop's variables \<open>pos\<close>, \<open>current_page\<close>, \<open>any_on_page\<close> and the buffer; the
  flag returned first says that the loop is left by \<open>break\<close>.  A copy of more bytes
  than \<open>vbuf\<close> has reads NUL past its end.\<close>

definition format_data_page_step ::
  "('f sdi12_value \<Rightarrow> string) \<Rightarrow> nat \<Rightarrow> nat \<Rightarrow> nat \<Rightarrow> 'f sdi12_value \<Rightarrow>
   nat \<times> nat \<times> bool \<times> string \<Rightarrow> bool \<times> nat \<times> nat \<times> bool \<times> string" where
  "format_data_page_step fmt buflen page max_value_chars v st =
     (let pos0 = fst st;
          current_page0 = fst (snd st);
          any_on_page = fst (snd (snd st));
          buf = snd (snd (snd st));
          vlen = fst (format_value fmt (SDI12_VALUE_MAX_CHARS + 1) v);
          vbuf = snd (format_value fmt (SDI12_VALUE_MAX_CHARS + 1) v)
      in if vlen \<le> 0 then (False, st)
         else
           let new_page = ((pos0 - 1) + nat vlen > max_value_chars \<and> pos0 - 1 > 0);
               current_page = (if new_page then (current_page0 + 1) mod 256 else current_page0);
               pos = (if new_page then 1 else pos0)
           in if current_page = page
              then
                if pos + nat vlen \<ge> buflen - 6 then (True, pos, current_page, any_on_page, buf)
                else (False, pos + nat vlen, current_page, True,
                      store buf pos (take (nat vlen) (vbuf @ replicate (nat vlen) NUL)))
              else if current_page > page then (True, pos, current_page, any_on_page, buf)
              else (False, pos, current_page, any_on_page, buf))"

primrec format_data_page_loop ::
  "('f sdi12_value \<Rightarrow> string) \<Rightarrow> nat \<Rightarrow> nat \<Rightarrow> nat \<Rightarrow> 'f sdi12_value list \<Rightarrow>
   nat \<times> nat \<times> bool \<times> string \<Rightarrow> nat \<times> nat \<times> bool \<times> string" where
  "format_data_page_loop fmt buflen page max_value_chars [] st = st"
| "format_data_page_loop fmt buflen page max_value_chars (v # vs) st =
     (if fst (format_data_page_step fmt buflen page max_value_chars v st)
      then snd (format_data_page_step fmt buflen page max_value_chars v st)
      else format_data_page_loop fmt buflen page max_value_chars vs
             (snd (format_data_page_step fmt buflen page max_value_chars v st)))"

definition format_data_page ::
  "('f sdi12_value \<Rightarrow> string) \<Rightarrow> ('f, 'z) sdi12_sensor_ctx_scheme \<Rightarrow> nat \<Rightarrow> nat \<Rightarrow>
   sdi12_err \<times> ('f, 'z) sdi12_sensor_ctx_scheme" where
  "format_data_page fmt ctx page max_value_chars =
     (let buflen = SDI12_MAX_RESPONSE_LEN;
          buf0 = store (resp_buf ctx) 0 [address ctx];
          st = format_data_page_loop fmt buflen page max_value_chars
                 (take (data_cache_count ctx) (data_cache ctx)) (1, 0, False, buf0);
          any_on_page = fst (snd (snd st));
          buf1 = snd (snd (snd st));
          pos = (if \<not> any_on_page \<and> page > 0 then 1 else fst st);
          buf2 = store buf1 pos [NUL];
          buf3 = (if crc_requested ctx then snd (sdi12_crc_append buf2 buflen)
                  else if pos + 2 < buflen then store buf2 pos [CR, LF, NUL]
                  else buf2)
      in (SDI12_OK, ctx\<lparr>resp_buf := buf3\<rparr>))"

text \<open>\<open>send_response\<close>: hand the response to the callback, \<open>resp_len\<close> bytes when it is
  set (binary data), the text up to the terminator otherwise.\<close>

definition send_response :: "('f, 'z) sdi12_sensor_ctx_scheme \<Rightarrow> ('f, 'z) sdi12_sensor_ctx_scheme" where
  "send_response ctx =
     (if cb_send_response (cb ctx)
      then
        let len = (if resp_len ctx \<noteq> 0 then resp_len ctx else strlen (resp_buf ctx))
        in ctx\<lparr>bus_sent := bus_sent ctx @ [take len (resp_buf ctx)]\<rparr>
      else ctx)"

text \<open>\<open>read_group_sync\<close>: the loop stores one value for each collected index when
  \<open>read_param\<close> is installed, and none otherwise.\<close>

definition read_group_sync :: "('f, 'z) sdi12_sensor_ctx_scheme \<Rightarrow> nat \<Rightarrow> ('f, 'z) sdi12_sensor_ctx_scheme" where
  "read_group_sync ctx g =
     (let indices = collect_group_indices ctx g SDI12_MAX_PARAMS;
          vals = (case cb_read_param (cb ctx) of
                    None \<Rightarrow> []
                  | Some read_param \<Rightarrow> map read_param (take SDI12_MAX_PARAMS indices))
      in ctx\<lparr>data_cache := store (data_cache ctx) 0 vals,
              data_cache_count := length vals,
              data_available := True\<rparr>)"

section \<open>Sensor: command handlers (sdi12\_sensor.c)\<close>

text \<open>Every handler returns its result code with the context it leaves.\<close>

definition respond :: "('f, 'z) sdi12_sensor_ctx_scheme \<Rightarrow> string \<Rightarrow> ('f, 'z) sdi12_sensor_ctx_scheme" where
  "respond ctx s = ctx\<lparr>resp_buf := snprintf (resp_buf ctx) SDI12_MAX_RESPONSE_LEN s\<rparr>"

definition handle_acknowledge ::
  "('f, 'z) sdi12_sensor_ctx_scheme \<Rightarrow> sdi12_err \<times> ('f, 'z) sdi12_sensor_ctx_scheme" where
  "handle_acknowledge ctx = (SDI12_OK, send_response (respond ctx [address ctx, CR, LF]))"

definition handle_identify ::
  "('f, 'z) sdi12_sensor_ctx_scheme \<Rightarrow> sdi12_err \<times> ('f, 'z) sdi12_sensor_ctx_scheme" where
  "handle_identify ctx =
     (SDI12_OK,
      send_response
        (respond ctx
           ([address ctx] @ SDI12_PROTOCOL_VERSION @
            fmt_pad 8 (vendor (ident ctx)) @
            fmt_pad 6 (model (ident ctx)) @
            fmt_pad 3 (firmware_version (ident ctx)) @
            serial (ident ctx) @ [CR, LF])))"

definition handle_measurement ::
  "('f, 'z) sdi12_sensor_ctx_scheme \<Rightarrow> nat \<Rightarrow> bool \<Rightarrow> sdi12_meas_type \<Rightarrow>
   sdi12_err \<times> ('f, 'z) sdi12_sensor_ctx_scheme" where
  "handle_measurement ctx0 g with_crc type =
     (let ctx = ctx0\<lparr>crc_requested := with_crc,
                     pending_meas_type := type,
                     pending_meas_group := g\<rparr>;
          n = count_group ctx g
      in if n = 0
         then
           (if type = SDI12_MEAS_STANDARD \<or> type = SDI12_MEAS_VERIFICATION
            then (SDI12_OK, send_response (respond ctx ([address ctx] @ ''0000'' @ [CR, LF])))
            else (SDI12_OK, send_response (respond ctx ([address ctx] @ ''00000'' @ [CR, LF]))))
         else
           (case cb_start_measurement (cb ctx) of
              Some start_measurement \<Rightarrow>
                let ttt0 = start_measurement g type;
                    ttt = (if ttt0 > 999 then 999 else ttt0);
                    ctx1 =
                      (if type = SDI12_MEAS_STANDARD \<or> type = SDI12_MEAS_VERIFICATION
                       then (respond ctx ([address ctx] @ fmt_0u 3 ttt @
                                          fmt_u (if n > 9 then 9 else n) @ [CR, LF]))
                              \<lparr>state := (if ttt > 0 then SDI12_STATE_MEASURING
                                          else SDI12_STATE_DATA_READY)\<rparr>
                       else if type = SDI12_MEAS_CONCURRENT
                       then (respond ctx ([address ctx] @ fmt_0u 3 ttt @
                                          fmt_0u 2 (if n > 99 then 99 else n) @ [CR, LF]))
                              \<lparr>state := (if ttt > 0 then SDI12_STATE_MEASURING_C
                                          else SDI12_STATE_DATA_READY)\<rparr>
                       else if type = SDI12_MEAS_HIGHVOL_ASCII \<or> type = SDI12_MEAS_HIGHVOL_BINARY
                       then (respond ctx ([address ctx] @ fmt_0u 3 ttt @ fmt_0u 3 n @ [CR, LF]))
                              \<lparr>state := (if ttt > 0 then SDI12_STATE_MEASURING_C
                                          else SDI12_STATE_DATA_READY)\<rparr>
                       else ctx);
                    ctx2 = (if ttt = 0 then read_group_sync ctx1 g
                            else ctx1\<lparr>data_available := False\<rparr>)
                in (SDI12_OK, send_response ctx2)
            | None \<Rightarrow>
                let ctx1 = read_group_sync ctx g;
                    ctx2 =
                      (if type = SDI12_MEAS_STANDARD \<or> type = SDI12_MEAS_VERIFICATION
                       then respond ctx1 ([address ctx1] @ ''000'' @
                                          fmt_u (if n > 9 then 9 else n) @ [CR, LF])
                       else if type = SDI12_MEAS_CONCURRENT
                       then respond ctx1 ([address ctx1] @ ''000'' @
                                          fmt_0u 2 (if n > 99 then 99 else n) @ [CR, LF])
                       else respond ctx1 ([address ctx1] @ ''000'' @ fmt_0u 3 n @ [CR, LF]))
                in (SDI12_OK, send_response (ctx2\<lparr>state := SDI12_STATE_DATA_READY\<rparr>))))"

text \<open>The six bytes of the empty binary packet: address, size 0, type 0 and the CRC of
  these four bytes, low byte first.\<close>

definition empty_binary_packet ::
  "('f, 'z) sdi12_sensor_ctx_scheme \<Rightarrow> sdi12_err \<times> ('f, 'z) sdi12_sensor_ctx_scheme" where
  "empty_binary_packet ctx =
     (let pkt = store (resp_buf ctx) 0 [address ctx, CHR 0x00, CHR 0x00, CHR 0x00];
          crc = sdi12_crc16 pkt 4;
          pkt' = store pkt 4 [char_of (unat (crc AND 0xFF)),
                              char_of (unat (drop_bit 8 crc AND 0xFF))]
      in (SDI12_OK, send_response (ctx\<lparr>resp_buf := pkt', resp_len := 6\<rparr>)))"

text \<open>\<open>handle_send_binary_data\<close>.  The local array \<open>tmpbuf\<close> is not initialised
  by the source beyond its first byte; the callback is given it with NUL in the other
  bytes.\<close>

definition handle_send_binary_data ::
  "('f, 'z) sdi12_sensor_ctx_scheme \<Rightarrow> nat \<Rightarrow> sdi12_err \<times> ('f, 'z) sdi12_sensor_ctx_scheme" where
  "handle_send_binary_data ctx page =
     (case (if data_available ctx then cb_format_binary_page (cb ctx) else None) of
        None \<Rightarrow> empty_binary_packet ctx
      | Some format_binary_page \<Rightarrow>
          let tmpbuf0 = address ctx # replicate (SDI12_MAX_RESPONSE_LEN - 1) NUL;
              cb_bytes = fst (format_binary_page page (data_cache ctx) (data_cache_count ctx) tmpbuf0);
              tmpbuf = snd (format_binary_page page (data_cache ctx) (data_cache_count ctx) tmpbuf0)
          in if cb_bytes = 0 then empty_binary_packet ctx
             else
               let data_type = tmpbuf ! 1;
                   payload_size = (cb_bytes - 1) mod 65536;
                   pkt = store (resp_buf ctx) 0
                           [address ctx,
                            char_of (payload_size mod 256),
                            char_of ((payload_size div 256) mod 256),
                            data_type];
                   pkt1 = (if payload_size > 0
                           then store pkt 4 (take payload_size (drop 2 tmpbuf))
                           else pkt);
                   data_end = 4 + payload_size;
                   crc = sdi12_crc16 pkt1 data_end;
                   pkt2 = store pkt1 data_end
                            [char_of (unat (crc AND 0xFF)),
                             char_of (unat (drop_bit 8 crc AND 0xFF))]
               in (SDI12_OK, send_response (ctx\<lparr>resp_buf := pkt2, resp_len := data_end + 2\<rparr>)))"

text \<open>Modelled from the spec: \<open>sdi12_crc_append_n\<close> is declared in sdi12.h and called
  by \<open>handle_send_data\<close>, but its body is not among the sources.  Following its
  description (``like \<open>sdi12_crc_append\<close> but uses an explicit data length instead of
  \<open>strlen\<close>''; ``fails with BufferOverflow if the result would not fit''), the CRC of the
  first \<open>data_len\<close> bytes is written after them, with CR LF and the terminator.\<close>

definition sdi12_crc_append_n :: "string \<Rightarrow> nat \<Rightarrow> nat \<Rightarrow> sdi12_err \<times> string" where
  "sdi12_crc_append_n buf data_len buflen =
     (if data_len + 3 + 2 + 1 > buflen then (SDI12_ERR_BUFFER_OVERFLOW, buf)
      else
        let encoded = sdi12_crc_encode_ascii (sdi12_crc16 buf data_len)
        in (SDI12_OK,
            store buf data_len [encoded ! 0, encoded ! 1, encoded ! 2, CR, LF, NUL]))"

definition handle_send_data ::
  "('f sdi12_value \<Rightarrow> string) \<Rightarrow> ('f, 'z) sdi12_sensor_ctx_scheme \<Rightarrow> nat \<Rightarrow>
   sdi12_err \<times> ('f, 'z) sdi12_sensor_ctx_scheme" where
  "handle_send_data fmt ctx page =
     (if \<not> data_available ctx
      then
        (if crc_requested ctx
         then
           let ctx1 = respond ctx [address ctx]
           in (SDI12_OK,
               send_response
                 (ctx1\<lparr>resp_buf := snd (sdi12_crc_append (resp_buf ctx1) SDI12_MAX_RESPONSE_LEN)\<rparr>))
         else (SDI12_OK, send_response (respond ctx [address ctx, CR, LF])))
      else
        (case (if pending_meas_type ctx = SDI12_MEAS_HIGHVOL_BINARY
               then cb_format_binary_page (cb ctx) else None) of
           Some format_binary_page \<Rightarrow>
             let buf0 = store (resp_buf ctx) 0 [address ctx];
                 payload = fst (format_binary_page page (data_cache ctx) (data_cache_count ctx) buf0);
                 buf1 = snd (format_binary_page page (data_cache ctx) (data_cache_count ctx) buf0);
                 pos = 1 + payload
             in if crc_requested ctx
                then (SDI12_OK,
                      send_response
                        (ctx\<lparr>resp_buf := snd (sdi12_crc_append_n buf1 pos SDI12_MAX_RESPONSE_LEN),
                              resp_len := pos + 3 + 2\<rparr>))
                else (SDI12_OK,
                      send_response
                        (ctx\<lparr>resp_buf := (if pos + 2 < SDI12_MAX_RESPONSE_LEN
                                           then store buf1 pos [CR, LF, NUL] else buf1),
                              resp_len := pos + 2\<rparr>))
         | None \<Rightarrow>
             let max_chars =
                   (if pending_meas_type ctx = SDI12_MEAS_CONCURRENT \<or>
                       pending_meas_type ctx = SDI12_MEAS_CONTINUOUS \<or>
                       pending_meas_type ctx = SDI12_MEAS_HIGHVOL_ASCII
                    then SDI12_C_VALUES_MAX_CHARS else SDI12_M_VALUES_MAX_CHARS)
             in (SDI12_OK, send_response (snd (format_data_page fmt ctx page max_chars)))))"

definition handle_continuous ::
  "('f sdi12_value \<Rightarrow> string) \<Rightarrow> ('f, 'z) sdi12_sensor_ctx_scheme \<Rightarrow> nat \<Rightarrow> bool \<Rightarrow>
   sdi12_err \<times> ('f, 'z) sdi12_sensor_ctx_scheme" where
  "handle_continuous fmt ctx0 index with_crc =
     (let ctx = ctx0\<lparr>crc_requested := with_crc, pending_meas_type := SDI12_MEAS_CONTINUOUS\<rparr>;
          n = count_group ctx index
      in if n = 0
         then
           (if with_crc
            then
              let ctx1 = respond ctx [address ctx]
              in (SDI12_OK,
                  send_response
                    (ctx1\<lparr>resp_buf := snd (sdi12_crc_append (resp_buf ctx1) SDI12_MAX_RESPONSE_LEN)\<rparr>))
            else (SDI12_OK, send_response (respond ctx [address ctx, CR, LF])))
         else
           (SDI12_OK,
            send_response
              (snd (format_data_page fmt (read_group_sync ctx index) 0 SDI12_C_VALUES_MAX_CHARS))))"

definition handle_change_address ::
  "('f, 'z) sdi12_sensor_ctx_scheme \<Rightarrow> char \<Rightarrow> sdi12_err \<times> ('f, 'z) sdi12_sensor_ctx_scheme" where
  "handle_change_address ctx new_addr =
     (if \<not> sdi12_valid_address new_addr then (SDI12_ERR_INVALID_ADDRESS, ctx)
      else
        let ctx1 = ctx\<lparr>address := new_addr\<rparr>;
            ctx2 = (if cb_save_address (cb ctx1)
                    then ctx1\<lparr>nv_saved := nv_saved ctx1 @ [new_addr]\<rparr> else ctx1)
        in (SDI12_OK, send_response (respond ctx2 [new_addr, CR, LF])))"

definition handle_highvol_stub ::
  "('f, 'z) sdi12_sensor_ctx_scheme \<Rightarrow> sdi12_err \<times> ('f, 'z) sdi12_sensor_ctx_scheme" where
  "handle_highvol_stub ctx =
     (SDI12_OK, send_response (respond ctx ([address ctx] @ ''000000'' @ [CR, LF])))"

text \<open>Decimal digits read by a loop \<open>n = n * 10 + (c - '0')\<close> into an unsigned
  accumulator; \<open>m\<close> is the modulus of the accumulator's type.\<close>

definition parse_decimal :: "nat \<Rightarrow> string \<Rightarrow> nat" where
  "parse_decimal m ds = foldl (\<lambda>n c. (n * 10 + digit_val c) mod m) 0 ds"

text \<open>The same loop into an \<open>int\<close> (\<open>param_num\<close> of \<open>handle_identify_measurement\<close>):
  a 32-bit value read as two's complement.  Signed overflow is undefined in C; the model
  wraps around, as the compiled code does.\<close>

definition parse_int :: "string \<Rightarrow> 32 word" where
  "parse_int ds = foldl (\<lambda>n c. n * 10 + of_nat (digit_val c)) 0 ds"

text \<open>\<open>memchr (cmd + from, c, n)\<close>: the index in \<open>cmd\<close> of the first \<open>c\<close> among the
  \<open>n\<close> bytes from \<open>from\<close> on, if there is one.\<close>

definition memchr :: "string \<Rightarrow> nat \<Rightarrow> char \<Rightarrow> nat \<Rightarrow> nat option" where
  "memchr cmd from c n =
     (let bytes = take n (drop from cmd)
      in if c \<in> set bytes then Some (from + length (takeWhile (\<lambda>b. b \<noteq> c) bytes)) else None)"

text \<open>The group digit of \<open>aIM\<close>, \<open>aIMC\<close>, \<open>aIC\<close>, \<open>aICC\<close> without a parameter number.\<close>

definition meta_group :: "string \<Rightarrow> nat \<Rightarrow> nat" where
  "meta_group cmd len =
     (let crc = (len > 3 \<and> cmd ! 3 = CHR ''C'');
          digit_pos = (if crc then 4 else 3)
      in if digit_pos < len \<and> CHR ''1'' \<le> cmd ! digit_pos \<and> cmd ! digit_pos \<le> CHR ''9''
         then digit_val (cmd ! digit_pos) else 0)"

definition handle_identify_measurement ::
  "('f, 'z) sdi12_sensor_ctx_scheme \<Rightarrow> string \<Rightarrow> nat \<Rightarrow>
   sdi12_err \<times> ('f, 'z) sdi12_sensor_ctx_scheme" where
  "handle_identify_measurement ctx cmd len =
     (if len < 3 then (SDI12_ERR_INVALID_COMMAND, ctx)
      else
        let subcmd = cmd ! 2
        in case memchr cmd 2 (CHR ''_'') (len - 2) of
             Some underscore \<Rightarrow>
               let param_num = sint (parse_int (takeWhile is_digit (drop (underscore + 1) cmd)));
                   after_mc = (if at cmd 3 = CHR ''C'' then 4 else 3);
                   g = (if subcmd = CHR ''M'' \<or> subcmd = CHR ''C''
                        then (if CHR ''1'' \<le> at cmd after_mc \<and> at cmd after_mc \<le> CHR ''9'' \<and>
                                 after_mc < underscore
                              then digit_val (at cmd after_mc) else 0)
                        else if subcmd = CHR ''R''
                        then (if is_digit (at cmd 3) then digit_val (at cmd 3) else 0)
                        else 0);
                   indices = collect_group_indices ctx g SDI12_MAX_PARAMS;
                   n = length indices;
                   crc = (memchr cmd 2 (CHR ''C'') (underscore - 2) \<noteq> None)
               in if param_num \<ge> 1 \<and> param_num \<le> int n
                  then
                    let idx = indices ! nat (param_num - 1);
                        ctx1 = respond (ctx\<lparr>crc_requested := crc\<rparr>)
                                 ([address ctx, CHR '',''] @ shef (p_meta (params ctx ! idx)) @
                                  [CHR '',''] @ units (p_meta (params ctx ! idx)) @ [CHR '';'']);
                        buf = (if crc
                               then snd (sdi12_crc_append (resp_buf ctx1) SDI12_MAX_RESPONSE_LEN)
                               else store (resp_buf ctx1) (strlen (resp_buf ctx1)) [CR, LF, NUL])
                    in (SDI12_OK, send_response (ctx1\<lparr>resp_buf := buf\<rparr>))
                  else
                    (if crc
                     then
                       let ctx1 = respond ctx [address ctx]
                       in (SDI12_OK,
                           send_response
                             (ctx1\<lparr>resp_buf :=
                                snd (sdi12_crc_append (resp_buf ctx1) SDI12_MAX_RESPONSE_LEN)\<rparr>))
                     else (SDI12_OK, send_response (respond ctx [address ctx, CR, LF])))
           | None \<Rightarrow>
               if subcmd = CHR ''M''
               then
                 let n = count_group ctx (meta_group cmd len)
                 in (SDI12_OK,
                     send_response
                       (respond ctx ([address ctx] @ ''000'' @
                                     fmt_u (if n > 9 then 9 else n) @ [CR, LF])))
               else if subcmd = CHR ''C''
               then
                 let n = count_group ctx (meta_group cmd len)
                 in (SDI12_OK,
                     send_response
                       (respond ctx ([address ctx] @ ''000'' @
                                     fmt_0u 2 (if n > 99 then 99 else n) @ [CR, LF])))
               else if subcmd = CHR ''V''
               then
                 let n = count_group ctx 0
                 in (SDI12_OK,
                     send_response
                       (respond ctx ([address ctx] @ ''000'' @
                                     fmt_u (if n > 9 then 9 else n) @ [CR, LF])))
               else if subcmd = CHR ''H''
               then
                 (if len > 3 \<and> (cmd ! 3 = CHR ''A'' \<or> cmd ! 3 = CHR ''B'')
                  then
                    (SDI12_OK,
                     send_response
                       (respond ctx ([address ctx] @ ''000'' @
                                     fmt_0u 3 (count_group ctx 0) @ [CR, LF])))
                  else
                    (SDI12_OK,
                     send_response (respond ctx ([address ctx] @ ''000000'' @ [CR, LF]))))
               else if subcmd = CHR ''R''
               then
                 let g = (if len > 3 \<and> is_digit (cmd ! 3) then digit_val (cmd ! 3) else 0);
                     n = count_group ctx g
                 in (SDI12_OK,
                     send_response
                       (respond ctx ([address ctx] @ ''000'' @
                                     fmt_0u 2 (if n > 99 then 99 else n) @ [CR, LF])))
               else
                 (SDI12_OK, send_response (respond ctx ([address ctx] @ ''0000'' @ [CR, LF]))))"

text \<open>The test of the loop of \<open>handle_extended\<close> on one registration.\<close>

definition xcmd_matches :: "string \<Rightarrow> nat \<Rightarrow> sdi12_xcmd_reg \<Rightarrow> bool" where
  "xcmd_matches cmd len x =
     (x_active x \<and> len - 2 \<ge> length (x_prefix x) \<and>
      take (length (x_prefix x)) (drop 2 cmd) = x_prefix x)"

text \<open>\<open>handle_extended\<close>.  The handler is given the text from \<open>cmd + 2\<close> up to the
  terminator of the buffer.  Calling a NULL handler is not a return of the C function;
  no registration made by \<open>sdi12_sensor_register_xcmd\<close> has one, and that branch is
  marked by \<open>SDI12_ERR_CALLBACK_MISSING\<close> here.\<close>

definition handle_extended ::
  "('f, 'z) sdi12_sensor_ctx_scheme \<Rightarrow> string \<Rightarrow> nat \<Rightarrow>
   sdi12_err \<times> ('f, 'z) sdi12_sensor_ctx_scheme" where
  "handle_extended ctx cmd len =
     (case find (xcmd_matches cmd len) (take (xcmd_count ctx) (xcmds ctx)) of
        None \<Rightarrow> (SDI12_OK, send_response (respond ctx [address ctx, CR, LF]))
      | Some x \<Rightarrow>
          (case x_handler x of
             None \<Rightarrow> (SDI12_ERR_CALLBACK_MISSING, ctx)
           | Some handler \<Rightarrow>
               let buf0 = store (resp_buf ctx) 0 [address ctx, NUL];
                   err = fst (handler (takeWhile (\<lambda>c. c \<noteq> NUL) (drop 2 cmd)) buf0);
                   buf1 = snd (handler (takeWhile (\<lambda>c. c \<noteq> NUL) (drop 2 cmd)) buf0)
               in if err = SDI12_OK
                  then
                    let slen = strlen buf1;
                        terminated = (slen \<ge> 2 \<and> buf1 ! (slen - 2) = CR \<and> buf1 ! (slen - 1) = LF);
                        buf2 = (if \<not> terminated \<and> slen + 2 < SDI12_MAX_RESPONSE_LEN
                                then store buf1 slen [CR, LF, NUL] else buf1)
                    in (err, send_response (ctx\<lparr>resp_buf := buf2\<rparr>))
                  else (err, ctx\<lparr>resp_buf := buf1\<rparr>)))"

section \<open>Sensor: public API (sdi12\_sensor.c)\<close>

definition zero_param :: sdi12_param_reg where
  "zero_param = \<lparr>p_meta = \<lparr>shef = [], units = []\<rparr>, p_group = 0, p_decimals = 0, p_active = False\<rparr>"

definition zero_xcmd :: sdi12_xcmd_reg where
  "zero_xcmd = \<lparr>x_prefix = [], x_handler = None, x_active = False\<rparr>"

text \<open>\<open>sdi12_sensor_init\<close>: the context is zeroed (\<open>memset\<close>), then filled in.  The
  result is the error, or the initialised context with \<open>SDI12_OK\<close>.\<close>

definition sdi12_sensor_init ::
  "char \<Rightarrow> sdi12_ident \<Rightarrow> 'f sdi12_sensor_callbacks \<Rightarrow> sdi12_err + ('f::zero) sdi12_sensor_ctx" where
  "sdi12_sensor_init addr idn callbacks =
     (if \<not> (cb_send_response callbacks \<and> cb_set_direction callbacks \<and>
             cb_read_param callbacks \<noteq> None)
      then Inl SDI12_ERR_CALLBACK_MISSING
      else if \<not> sdi12_valid_address addr then Inl SDI12_ERR_INVALID_ADDRESS
      else
        Inr \<lparr>address = (case cb_load_address callbacks of
                          None \<Rightarrow> addr
                        | Some loaded \<Rightarrow> if sdi12_valid_address loaded then loaded else addr),
             ident = idn,
             cb = callbacks,
             params = replicate SDI12_MAX_PARAMS zero_param,
             param_count = 0,
             xcmds = replicate SDI12_MAX_XCMDS zero_xcmd,
             xcmd_count = 0,
             state = SDI12_STATE_READY,
             pending_meas_type = SDI12_MEAS_STANDARD,
             pending_meas_group = 0,
             crc_requested = False,
             data_cache = replicate SDI12_MAX_PARAMS \<lparr>fvalue = 0, decimals = 0\<rparr>,
             data_cache_count = 0,
             data_available = False,
             resp_buf = replicate SDI12_MAX_RESPONSE_LEN NUL,
             resp_len = 0,
             bus_sent = [],
             bus_service_requests = 0,
             nv_saved = []\<rparr>)"

definition sdi12_sensor_register_param ::
  "('f, 'z) sdi12_sensor_ctx_scheme \<Rightarrow> nat \<Rightarrow> string \<Rightarrow> string \<Rightarrow> nat \<Rightarrow>
   sdi12_err \<times> ('f, 'z) sdi12_sensor_ctx_scheme" where
  "sdi12_sensor_register_param ctx g shef_arg units_arg decimals_arg =
     (if param_count ctx \<ge> SDI12_MAX_PARAMS then (SDI12_ERR_PARAM_LIMIT, ctx)
      else if g \<ge> SDI12_MAX_MEAS_GROUPS then (SDI12_ERR_INVALID_COMMAND, ctx)
      else
        (SDI12_OK,
         ctx\<lparr>params := (params ctx)
                 [param_count ctx :=
                    \<lparr>p_meta = \<lparr>shef = take 3 shef_arg, units = take 20 units_arg\<rparr>,
                     p_group = g, p_decimals = decimals_arg, p_active = True\<rparr>],
              param_count := param_count ctx + 1\<rparr>))"

definition sdi12_sensor_register_xcmd ::
  "('f, 'z) sdi12_sensor_ctx_scheme \<Rightarrow> string \<Rightarrow> (string \<Rightarrow> string \<Rightarrow> sdi12_err \<times> string) option \<Rightarrow>
   sdi12_err \<times> ('f, 'z) sdi12_sensor_ctx_scheme" where
  "sdi12_sensor_register_xcmd ctx prefix_arg handler =
     (if handler = None then (SDI12_ERR_INVALID_COMMAND, ctx)
      else if xcmd_count ctx \<ge> SDI12_MAX_XCMDS then (SDI12_ERR_PARAM_LIMIT, ctx)
      else
        (SDI12_OK,
         ctx\<lparr>xcmds := (xcmds ctx)
                 [xcmd_count ctx :=
                    \<lparr>x_prefix = take 15 prefix_arg, x_handler = handler, x_active = True\<rparr>],
              xcmd_count := xcmd_count ctx + 1\<rparr>))"

text \<open>The page number of \<open>aDn!\<close> and \<open>aDBn!\<close>: the digits from \<open>from\<close> on, in a
  \<open>uint16_t\<close>.\<close>

definition parse_page :: "string \<Rightarrow> nat \<Rightarrow> nat \<Rightarrow> nat" where
  "parse_page cmd from cmdlen =
     parse_decimal 65536 (takeWhile is_digit (take (cmdlen - from) (drop from cmd)))"

text \<open>The group digit of \<open>aM\<close>, \<open>aMC\<close>, \<open>aC\<close>, \<open>aCC\<close>.\<close>

definition meas_group :: "string \<Rightarrow> nat \<Rightarrow> nat" where
  "meas_group cmd cmdlen =
     (let crc = (cmdlen > 2 \<and> cmd ! 2 = CHR ''C'');
          digit_pos = (if crc then 3 else 2)
      in if digit_pos < cmdlen \<and> CHR ''1'' \<le> cmd ! digit_pos \<and> cmd ! digit_pos \<le> CHR ''9''
         then digit_val (cmd ! digit_pos) else 0)"

text \<open>The dispatch on the second character of a command of at least two characters.\<close>

definition dispatch ::
  "('f sdi12_value \<Rightarrow> string) \<Rightarrow> ('f, 'z) sdi12_sensor_ctx_scheme \<Rightarrow> string \<Rightarrow> nat \<Rightarrow>
   sdi12_err \<times> ('f, 'z) sdi12_sensor_ctx_scheme" where
  "dispatch fmt ctx cmd cmdlen =
     (let c = cmd ! 1
      in if c = CHR ''I''
         then (if cmdlen = 2 then handle_identify ctx
               else handle_identify_measurement ctx cmd cmdlen)
         else if c = CHR ''M''
         then handle_measurement ctx (meas_group cmd cmdlen)
                (cmdlen > 2 \<and> cmd ! 2 = CHR ''C'') SDI12_MEAS_STANDARD
         else if c = CHR ''C''
         then handle_measurement ctx (meas_group cmd cmdlen)
                (cmdlen > 2 \<and> cmd ! 2 = CHR ''C'') SDI12_MEAS_CONCURRENT
         else if c = CHR ''D''
         then
           (if cmdlen \<ge> 3
            then
              (if cmd ! 2 = CHR ''B''
               then handle_send_binary_data ctx (parse_page cmd 3 cmdlen)
               else
                 let page = parse_page cmd 2 cmdlen
                 in handle_send_data fmt ctx (if page > 255 then 255 else page))
            else (SDI12_ERR_INVALID_COMMAND, ctx))
         else if c = CHR ''R''
         then
           let crc = (cmdlen > 2 \<and> cmd ! 2 = CHR ''C'');
               digit_pos = (if crc then 3 else 2);
               index = (if digit_pos < cmdlen \<and> is_digit (cmd ! digit_pos)
                        then digit_val (cmd ! digit_pos) else 0)
           in handle_continuous fmt ctx index crc
         else if c = CHR ''V''
         then handle_measurement ctx 0 False SDI12_MEAS_VERIFICATION
         else if c = CHR ''A''
         then
           (if cmdlen \<ge> 3 \<and> isprint (cmd ! 2) then handle_change_address ctx (cmd ! 2)
            else (SDI12_ERR_INVALID_ADDRESS, ctx))
         else if c = CHR ''H''
         then
           (if cmdlen = 2 then handle_highvol_stub ctx
            else if cmd ! 2 = CHR ''A''
            then handle_measurement ctx 0 (cmdlen > 3 \<and> cmd ! 3 = CHR ''C'') SDI12_MEAS_HIGHVOL_ASCII
            else if cmd ! 2 = CHR ''B''
            then handle_measurement ctx 0 (cmdlen > 3 \<and> cmd ! 3 = CHR ''C'') SDI12_MEAS_HIGHVOL_BINARY
            else handle_highvol_stub ctx)
         else if c = CHR ''X''
         then handle_extended ctx cmd cmdlen
         else (SDI12_ERR_INVALID_COMMAND, ctx))"

text \<open>\<open>sdi12_sensor_process (ctx, cmd, len)\<close> with \<open>len = length cmd\<close>.\<close>

definition sdi12_sensor_process ::
  "('f sdi12_value \<Rightarrow> string) \<Rightarrow> ('f, 'z) sdi12_sensor_ctx_scheme \<Rightarrow> string \<Rightarrow>
   sdi12_err \<times> ('f, 'z) sdi12_sensor_ctx_scheme" where
  "sdi12_sensor_process fmt ctx0 cmd =
     (if length cmd = 0 then (SDI12_ERR_INVALID_COMMAND, ctx0)
      else
        let ctx = ctx0\<lparr>resp_len := 0\<rparr>;
            cmdlen = (if cmd ! (length cmd - 1) = CHR ''!'' then length cmd - 1 else length cmd)
        in if cmdlen = 0 then (SDI12_ERR_INVALID_COMMAND, ctx)
           else
             let addr = cmd ! 0;
                 is_query = (cmdlen = 1 \<and> addr = CHR ''?'');
                 is_addressed = (addr = address ctx)
             in if \<not> is_addressed \<and> \<not> is_query then (SDI12_ERR_NOT_ADDRESSED, ctx)
                else
                  let ctx1 = (if is_addressed \<and> state ctx = SDI12_STATE_MEASURING_C
                              then ctx\<lparr>state := SDI12_STATE_READY,
                                        data_available := False,
                                        data_cache_count := 0\<rparr>
                              else ctx)
                  in if cmdlen = 1 then handle_acknowledge ctx1
                     else dispatch fmt ctx1 cmd cmdlen)"

definition sdi12_sensor_measurement_done ::
  "('f, 'z) sdi12_sensor_ctx_scheme \<Rightarrow> 'f sdi12_value list \<Rightarrow> nat \<Rightarrow>
   sdi12_err \<times> ('f, 'z) sdi12_sensor_ctx_scheme" where
  "sdi12_sensor_measurement_done ctx0 values count =
     (let n = (if count > SDI12_MAX_PARAMS then SDI12_MAX_PARAMS else count);
          ctx = ctx0\<lparr>data_cache := store (data_cache ctx0) 0 (take n values),
                     data_cache_count := n,
                     data_available := True,
                     resp_len := 0\<rparr>
      in if state ctx = SDI12_STATE_MEASURING
         then
           let ctx1 = respond ctx [address ctx, CR, LF];
               ctx2 = (if cb_service_request (cb ctx1)
                       then ctx1\<lparr>bus_service_requests := bus_service_requests ctx1 + 1\<rparr>
                       else send_response ctx1)
           in (SDI12_OK, ctx2\<lparr>state := SDI12_STATE_DATA_READY\<rparr>)
         else if state ctx = SDI12_STATE_MEASURING_C
         then (SDI12_OK, ctx\<lparr>state := SDI12_STATE_DATA_READY\<rparr>)
         else (SDI12_OK, ctx))"

definition sdi12_sensor_break :: "('f, 'z) sdi12_sensor_ctx_scheme \<Rightarrow> ('f, 'z) sdi12_sensor_ctx_scheme" where
  "sdi12_sensor_break ctx0 =
     (let ctx = (if state ctx0 = SDI12_STATE_MEASURING \<or> state ctx0 = SDI12_STATE_MEASURING_C
                 then ctx0\<lparr>data_available := False, data_cache_count := 0\<rparr>
                 else ctx0)
      in ctx\<lparr>state := SDI12_STATE_READY\<rparr>)"

definition sdi12_sensor_group_count :: "('f, 'z) sdi12_sensor_ctx_scheme \<Rightarrow> nat \<Rightarrow> nat" where
  "sdi12_sensor_group_count ctx g = count_group ctx g"

section \<open>Master (sdi12\_master.h, sdi12\_master.c)\<close>

text \<open>
  \<open>sdi12_master_ctx_t\<close>.  The callbacks of the master are all required and act on the
  host only; the last three fields, which are not in the C struct, stand for the host:
  \<open>rx_pending\<close> holds what the next calls of \<open>recv\<close> will deliver (nothing pending, or
  an empty delivery, is a timeout: \<open>recv\<close> returns 0), \<open>tx_sent\<close> the bytes given to
  \<open>send\<close>, and \<open>dir_log\<close> the directions given to \<open>set_direction\<close>.
\<close>

record sdi12_master_ctx =
  cmd_buf :: string
  m_resp_buf :: string
  m_resp_len :: nat
  rx_pending :: "string list"
  tx_sent :: "string list"
  dir_log :: "sdi12_dir list"

text \<open>\<open>ctx->cb.recv (buf, max, timeout_ms, user_data)\<close>: at most \<open>max\<close> bytes of the
  next delivery are written to \<open>buf\<close>; the result is their number.\<close>

definition cb_recv :: "sdi12_master_ctx \<Rightarrow> nat \<Rightarrow> string \<times> sdi12_master_ctx" where
  "cb_recv ctx max_n =
     (case rx_pending ctx of
        [] \<Rightarrow> ([], ctx)
      | r # rs \<Rightarrow> (take max_n r, ctx\<lparr>rx_pending := rs\<rparr>))"

fun trim_crlf :: "string \<Rightarrow> nat \<Rightarrow> nat \<times> string" where
  "trim_crlf buf 0 = (0, buf)"
| "trim_crlf buf (Suc n) =
     (if buf ! n = CR \<or> buf ! n = LF then trim_crlf (buf[n := NUL]) n else (Suc n, buf))"

definition send_command :: "sdi12_master_ctx \<Rightarrow> string \<Rightarrow> sdi12_err \<times> sdi12_master_ctx" where
  "send_command ctx cmd =
     (let len = length cmd
      in if len > SDI12_CMD_MAX_CHARS then (SDI12_ERR_INVALID_COMMAND, ctx)
         else
           let ctx1 = ctx\<lparr>cmd_buf := store (cmd_buf ctx) 0 (cmd @ [NUL])\<rparr>
           in (SDI12_OK,
               ctx1\<lparr>tx_sent := tx_sent ctx1 @ [take len (cmd_buf ctx1)],
                     dir_log := dir_log ctx1 @ [SDI12_DIR_TX, SDI12_DIR_RX]\<rparr>))"

definition recv_response :: "sdi12_master_ctx \<Rightarrow> nat \<Rightarrow> sdi12_err \<times> sdi12_master_ctx" where
  "recv_response ctx timeout_ms =
     (let r = fst (cb_recv ctx (SDI12_RESP_MAX_CHARS + 4 - 1));
          ctx1 = (snd (cb_recv ctx (SDI12_RESP_MAX_CHARS + 4 - 1)))
                   \<lparr>m_resp_buf := store (m_resp_buf ctx) 0 r, m_resp_len := length r\<rparr>
      in if m_resp_len ctx1 = 0 then (SDI12_ERR_TIMEOUT, ctx1)
         else (SDI12_OK, ctx1\<lparr>m_resp_buf := (m_resp_buf ctx1)[m_resp_len ctx1 := NUL]\<rparr>))"

definition sdi12_master_transact ::
  "sdi12_master_ctx \<Rightarrow> string \<Rightarrow> nat \<Rightarrow> sdi12_err \<times> sdi12_master_ctx" where
  "sdi12_master_transact ctx cmd timeout_ms =
     (if fst (send_command ctx cmd) \<noteq> SDI12_OK then send_command ctx cmd
      else recv_response (snd (send_command ctx cmd)) timeout_ms)"

text \<open>The part of \<open>sdi12_master_acknowledge\<close> that follows the transaction, on the
  transaction's result code and the context it leaves.  The middle component of the
  result is \<open>*present\<close> on return, \<open>present\<close> being its value at the call.\<close>

definition acknowledge_reply ::
  "sdi12_err \<times> sdi12_master_ctx \<Rightarrow> char \<Rightarrow> bool \<Rightarrow> sdi12_err \<times> bool \<times> sdi12_master_ctx" where
  "acknowledge_reply t addr present =
     (let err = fst t; ctx1 = snd t
      in if err = SDI12_ERR_TIMEOUT then (SDI12_OK, False, ctx1)
         else if err \<noteq> SDI12_OK then (err, present, ctx1)
         else
           let len = fst (trim_crlf (m_resp_buf ctx1) (m_resp_len ctx1));
               buf = snd (trim_crlf (m_resp_buf ctx1) (m_resp_len ctx1))
           in (SDI12_OK, len \<ge> 1 \<and> buf ! 0 = addr, ctx1\<lparr>m_resp_buf := buf\<rparr>))"

text \<open>\<open>sdi12_master_acknowledge (ctx, addr, present)\<close>; the command is printed by
  \<open>snprintf (cmd, 4, "%c!", addr)\<close>.\<close>

definition sdi12_master_acknowledge ::
  "sdi12_master_ctx \<Rightarrow> char \<Rightarrow> bool \<Rightarrow> sdi12_err \<times> bool \<times> sdi12_master_ctx" where
  "sdi12_master_acknowledge ctx addr present =
     (if \<not> sdi12_valid_address addr then (SDI12_ERR_INVALID_ADDRESS, present, ctx)
      else
        acknowledge_reply
          (sdi12_master_transact ctx (take 3 [addr, CHR ''!'']) SDI12_RESPONSE_TIMEOUT_MS)
          addr present)"

text \<open>A master context as \<open>memset\<close> leaves it in \<open>sdi12_master_init\<close>, with an idle
  host.\<close>

definition zeroed_master_ctx :: sdi12_master_ctx where
  "zeroed_master_ctx =
     \<lparr>cmd_buf = replicate (SDI12_CMD_MAX_CHARS + 4) NUL,
      m_resp_buf = replicate (SDI12_RESP_MAX_CHARS + 4) NUL,
      m_resp_len = 0,
      rx_pending = [],
      tx_sent = [],
      dir_log = []\<rparr>"

subsection \<open>Parsing data values\<close>

text \<open>The two inner loops of \<open>sdi12_master_parse_data_values\<close>: skip spaces, and run
  over digits and dots; both stop at \<open>data_len\<close>.\<close>

definition skip_spaces :: "string \<Rightarrow> nat \<Rightarrow> nat \<Rightarrow> nat" where
  "skip_spaces s data_len pos =
     pos + length (takeWhile (\<lambda>c. c = CHR '' '') (drop pos (take data_len s)))"

definition scan_number :: "string \<Rightarrow> nat \<Rightarrow> nat \<Rightarrow> nat" where
  "scan_number s data_len pos =
     pos + length (takeWhile (\<lambda>c. is_digit c \<or> c = CHR ''.'') (drop pos (take data_len s)))"

text \<open>The value recorded for the token \<open>resp_str[start .. pos - 1]\<close>; \<open>strtod\<close> is the
  C library's, taken as a parameter.\<close>

definition token_value :: "(string \<Rightarrow> 'f) \<Rightarrow> string \<Rightarrow> nat \<Rightarrow> nat \<Rightarrow> 'f sdi12_value" where
  "token_value strtod s start pos =
     (let vlen = (if pos - start > SDI12_VALUE_MAX_CHARS then SDI12_VALUE_MAX_CHARS else pos - start);
          vbuf = take vlen (drop start s)
      in \<lparr>fvalue = strtod vbuf,
          decimals = (case memchr vbuf 0 (CHR ''.'') vlen of
                        Some dot \<Rightarrow> vlen - dot - 1
                      | None \<Rightarrow> 0)\<rparr>)"

text \<open>The outer loop of \<open>sdi12_master_parse_data_values\<close>, on \<open>pos\<close> and the values
  recorded so far (\<open>*count\<close> is their number).\<close>

function parse_values_loop ::
  "(string \<Rightarrow> 'f) \<Rightarrow> string \<Rightarrow> nat \<Rightarrow> nat \<Rightarrow> nat \<Rightarrow> 'f sdi12_value list \<Rightarrow> 'f sdi12_value list" where
  "parse_values_loop strtod s data_len max_values pos vals =
     (if pos < data_len \<and> length vals < max_values
      then
        if skip_spaces s data_len pos \<ge> data_len then vals
        else if s ! skip_spaces s data_len pos \<noteq> CHR ''+'' \<and>
                s ! skip_spaces s data_len pos \<noteq> CHR ''-''
        then parse_values_loop strtod s data_len max_values (skip_spaces s data_len pos + 1) vals
        else
          parse_values_loop strtod s data_len max_values
            (scan_number s data_len (skip_spaces s data_len pos + 1))
            (if scan_number s data_len (skip_spaces s data_len pos + 1) > skip_spaces s data_len pos + 1
             then vals @ [token_value strtod s (skip_spaces s data_len pos)
                            (scan_number s data_len (skip_spaces s data_len pos + 1))]
             else vals)
      else vals)"
  by pat_completeness auto
termination
  by (relation "measure (\<lambda>(strtod, s, data_len, max_values, pos, vals). data_len - pos)")
     (auto simp: skip_spaces_def scan_number_def)

declare parse_values_loop.simps [simp del]

text \<open>\<open>sdi12_master_parse_data_values (resp_str, len, values, max_values, count,
  verify_crc)\<close>: the result code with the entries \<open>values[0 .. *count - 1]\<close>.\<close>

definition sdi12_master_parse_data_values ::
  "(string \<Rightarrow> 'f) \<Rightarrow> string \<Rightarrow> nat \<Rightarrow> nat \<Rightarrow> bool \<Rightarrow> sdi12_err \<times> 'f sdi12_value list" where
  "sdi12_master_parse_data_values strtod resp_str len max_values verify_crc =
     (let data_len = (if verify_crc \<and> len \<ge> 3 then len - 3 else len)
      in (SDI12_OK, parse_values_loop strtod resp_str data_len max_values 0 []))"

section \<open>Invariants and a test configuration\<close>

text \<open>The invariant of the data model, \<open>data_cache_count \<le> param_count \<le>
  SDI12_MAX_PARAMS\<close>, and the bounds that the arrays of the context need.\<close>

definition cache_inv :: "('f, 'z) sdi12_sensor_ctx_scheme \<Rightarrow> bool" where
  "cache_inv ctx = (data_cache_count ctx \<le> param_count ctx \<and> param_count ctx \<le> SDI12_MAX_PARAMS)"

definition bounds_inv :: "('f, 'z) sdi12_sensor_ctx_scheme \<Rightarrow> bool" where
  "bounds_inv ctx = (data_cache_count ctx \<le> SDI12_MAX_PARAMS \<and> param_count ctx \<le> SDI12_MAX_PARAMS)"

text \<open>
  The configuration of the repository's tests (\<open>create_test_ctx\<close>): a sensor at address
  \<open>0\<close> with the three required callbacks and no optional one.  Values are whole numbers
  registered with no decimals, for which \<open>format_value\<close> prints the sign and the
  magnitude (\<open>"%c%lu"\<close>); parameter \<open>i\<close> reads \<open>42 + i\<close>.
\<close>

definition test_fmt :: "int sdi12_value \<Rightarrow> string" where
  "test_fmt v = (if fvalue v \<ge> 0 then CHR ''+'' else CHR ''-'') # fmt_u (nat \<bar>fvalue v\<bar>)"

definition test_callbacks :: "int sdi12_sensor_callbacks" where
  "test_callbacks =
     \<lparr>cb_send_response = True, cb_set_direction = True,
      cb_read_param = Some (\<lambda>i. \<lparr>fvalue = 42 + int i, decimals = 0\<rparr>),
      cb_save_address = False, cb_load_address = None,
      cb_start_measurement = None, cb_service_request = False,
      cb_on_reset = False, cb_format_binary_page = None\<rparr>"

definition test_ident :: sdi12_ident where
  "test_ident =
     \<lparr>vendor = ''TESTCO'', model = ''MOD001'', firmware_version = ''100'', serial = ''SN123''\<rparr>"

text \<open>The context after \<open>sdi12_sensor_init\<close>, with no parameter registered.\<close>

definition test_ctx0 :: "int sdi12_sensor_ctx" where
  "test_ctx0 =
     (case sdi12_sensor_init (CHR ''0'') test_ident test_callbacks of
        Inr ctx \<Rightarrow> ctx
      | Inl e \<Rightarrow> undefined)"

text \<open>The same with two parameters registered in group 0.\<close>

definition test_ctx :: "int sdi12_sensor_ctx" where
  "test_ctx =
     snd (sdi12_sensor_register_param
            (snd (sdi12_sensor_register_param test_ctx0 0 ''TA'' ''C'' 0)) 0 ''RH'' ''%'' 0)"

text \<open>The same sensor with a \<open>start_measurement\<close> callback that asks for five seconds,
  after \<open>0C!\<close>: a concurrent measurement is under way.\<close>

definition test_ctx_concurrent :: "int sdi12_sensor_ctx" where
  "test_ctx_concurrent =
     snd (sdi12_sensor_process test_fmt
            (test_ctx\<lparr>cb := test_callbacks\<lparr>cb_start_measurement := Some (\<lambda>g t. 5)\<rparr>\<rparr>) ''0C!'')"







text \<open>What a command handler may do to the two counts: the parameter count stays, and
  the cache count stays or is set to a number within the parameter count and the
  capacity.\<close>

definition keeps_counts ::
  "('f, 'z) sdi12_sensor_ctx_scheme \<Rightarrow> ('f, 'z) sdi12_sensor_ctx_scheme \<Rightarrow> bool" where
  "keeps_counts ctx ctx' =
     (param_count ctx' = param_count ctx \<and>
      (data_cache_count ctx' = data_cache_count ctx \<or>
       (data_cache_count ctx' \<le> param_count ctx \<and> data_cache_count ctx' \<le> SDI12_MAX_PARAMS)))"




section \<open>Properties of the CRC codec\<close>

lemma strlen_prefix: "NUL \<notin> set s \<Longrightarrow> strlen (s @ NUL # r) = length s"
proof -
  assume "NUL \<notin> set s"
  then have "takeWhile (\<lambda>c. c \<noteq> NUL) s = s"
    by auto
  then show ?thesis
    by (simp add: strlen_def takeWhile_tail)
qed

lemma take_strlen_no_NUL: "n \<le> strlen buf \<Longrightarrow> NUL \<notin> set (take n buf)"
proof -
  assume n: "n \<le> strlen buf"
  have "take n buf = take n (takeWhile (\<lambda>c. c \<noteq> NUL) buf)"
    using n unfolding strlen_def
    by (metis append_eq_conv_conj takeWhile_dropWhile_id min.absorb1 take_take)
  then have "set (take n buf) \<subseteq> set (takeWhile (\<lambda>c. c \<noteq> NUL) buf)"
    by (metis set_take_subset)
  then show ?thesis
    using set_takeWhileD by fastforce
qed

lemma strlen_le_length: "strlen buf \<le> length buf"
  by (simp add: strlen_def length_takeWhile_le)

lemma crc_data_end_le: "crc_data_end buf \<le> strlen buf"
  by (simp add: crc_data_end_def Let_def)

lemma char_of_or_0x40_not_NUL: "char_of (unat (0x40 OR (w :: 16 word))) \<noteq> NUL"
proof
  assume "char_of (unat (0x40 OR w)) = NUL"
  then have "of_char (char_of (unat (0x40 OR w))) = (0::nat)"
    by (simp add: NUL_def)
  then have "take_bit 8 (unat (0x40 OR w)) = 0"
    by (simp add: take_bit_eq_mod)
  then have "\<not> bit (take_bit 8 (unat (0x40 OR w))) 6"
    by simp
  then have "\<not> bit (unat (0x40 OR w)) 6"
    by (simp add: bit_take_bit_iff)
  then show False
    by (simp add: bit_unsigned_iff bit_or_iff)
qed

lemma crc_encoded_shape:
  "\<exists>e0 e1 e2. sdi12_crc_encode_ascii crc = [e0, e1, e2, NUL] \<and>
     e0 \<noteq> NUL \<and> e1 \<noteq> NUL \<and> e2 \<noteq> NUL"
  by (simp add: sdi12_crc_encode_ascii_def char_of_or_0x40_not_NUL)

lemma CR_LF_not_NUL: "CR \<noteq> NUL" "LF \<noteq> NUL" "CR \<noteq> LF"
  by (simp_all add: CR_def LF_def NUL_def)

text \<open>The buffer \<open>sdi12_crc_append\<close> leaves behind, and what \<open>sdi12_crc_verify\<close> says of it.\<close>

lemma crc_verify_framed:
  assumes e: "sdi12_crc_encode_ascii (sdi12_crc16 d (length d)) = [e0, e1, e2, z]"
  shows "sdi12_crc_verify (d @ [e0, e1, e2, CR, LF, NUL] @ r) (length d + 5) = (0 < length d)"
proof (cases "length d = 0")
  case True
  then show ?thesis by (simp add: sdi12_crc_verify_def)
next
  case False
  have crc: "sdi12_crc16 (d @ e0 # e1 # e2 # CR # LF # NUL # r) (length d) = sdi12_crc16 d (length d)"
    by (simp add: sdi12_crc16_def)
  show ?thesis
    using False by (simp add: sdi12_crc_verify_def Let_def nth_append crc e CR_LF_not_NUL)
qed

text \<open>
  Claim C6, as amended.  For every NUL-terminated string held in a buffer of capacity
  \<open>buflen\<close> into which the CRC fits (\<open>sdi12_crc_append\<close> returns \<open>SDI12_OK\<close>),
  \<open>sdi12_crc_verify\<close> over the resulting length accepts the result exactly when the data
  part (the string without one trailing CR LF) is not empty.  For the empty string the
  result is five bytes long and is refused by the minimum length of six.
\<close>

theorem crc_append_verify_roundtrip:
  assumes cap: "buflen \<le> length buf"
    and fits: "crc_data_end buf + 6 \<le> buflen"
  shows "fst (sdi12_crc_append buf buflen) = SDI12_OK \<and>
         sdi12_crc_verify (snd (sdi12_crc_append buf buflen))
             (strlen (snd (sdi12_crc_append buf buflen)))
           = (0 < crc_data_end buf)"
proof -
  define d where "d = take (crc_data_end buf) buf"
  define r where "r = drop (crc_data_end buf + 6) buf"
  have len: "length d = crc_data_end buf"
    using cap fits by (simp add: d_def)
  have crc: "sdi12_crc16 buf (crc_data_end buf) = sdi12_crc16 d (length d)"
    by (simp add: len) (simp add: sdi12_crc16_def d_def)
  obtain e0 e1 e2 where e: "sdi12_crc_encode_ascii (sdi12_crc16 d (length d)) = [e0, e1, e2, NUL]"
    and nz: "e0 \<noteq> NUL" "e1 \<noteq> NUL" "e2 \<noteq> NUL"
    using crc_encoded_shape by blast
  have "store buf (crc_data_end buf) [e0, e1, e2, CR, LF, NUL] = d @ [e0, e1, e2, CR, LF, NUL] @ r"
    by (simp add: store_def d_def r_def eval_nat_numeral)
  then have res: "sdi12_crc_append buf buflen = (SDI12_OK, d @ [e0, e1, e2, CR, LF, NUL] @ r)"
    using fits by (simp add: sdi12_crc_append_def Let_def crc e)
  have "NUL \<notin> set d"
    unfolding d_def by (rule take_strlen_no_NUL [OF crc_data_end_le])
  then have "NUL \<notin> set (d @ [e0, e1, e2, CR, LF])"
    using nz CR_LF_not_NUL by auto
  then have "strlen ((d @ [e0, e1, e2, CR, LF]) @ NUL # r) = length (d @ [e0, e1, e2, CR, LF])"
    by (rule strlen_prefix)
  then have sl: "strlen (d @ [e0, e1, e2, CR, LF, NUL] @ r) = length d + 5"
    by simp
  show ?thesis
    using crc_verify_framed [OF e, of r] len sl by (simp add: res)
qed

text \<open>The round trip at the string \<open>0+1.23\<close> in a 16-byte buffer.\<close>

theorem crc_append_verify_roundtrip_witness:
  "fst (sdi12_crc_append (''0+1.23'' @ replicate 10 NUL) 16) = SDI12_OK \<and>
   sdi12_crc_verify (snd (sdi12_crc_append (''0+1.23'' @ replicate 10 NUL) 16))
     (strlen (snd (sdi12_crc_append (''0+1.23'' @ replicate 10 NUL) 16)))"
proof -
  have cap: "16 \<le> length (''0+1.23'' @ replicate 10 NUL)"
    by simp
  have fits: "crc_data_end (''0+1.23'' @ replicate 10 NUL) + 6 \<le> 16"
    by code_simp
  have pos: "0 < crc_data_end (''0+1.23'' @ replicate 10 NUL)"
    by code_simp
  show ?thesis
    using crc_append_verify_roundtrip [OF cap fits] pos by simp
qed

text \<open>Claim C6 as stated fails at the empty string: appending succeeds, and the
  result \<open>@@@\<close> CR LF is refused.\<close>

theorem crc_roundtrip_empty_counterexample:
  "fst (sdi12_crc_append (replicate 8 NUL) 8) = SDI12_OK \<and>
   \<not> sdi12_crc_verify (snd (sdi12_crc_append (replicate 8 NUL) 8))
        (strlen (snd (sdi12_crc_append (replicate 8 NUL) 8)))"
  by code_simp
section \<open>Properties of the sensor\<close>

subsection \<open>Responses as text\<close>

lemma snprintf_short:
  "length s < n \<Longrightarrow> snprintf buf n s = s @ NUL # drop (Suc (length s)) buf"
  by (simp add: snprintf_def store_def)

lemma sent_text:
  assumes "length s < n" and "NUL \<notin> set s"
  shows "take (strlen (snprintf buf n s)) (snprintf buf n s) = s"
  using assms strlen_prefix [of s "drop (Suc (length s)) buf"]
  by (simp add: snprintf_short)

lemma valid_address_not_NUL: "sdi12_valid_address a \<Longrightarrow> a \<noteq> NUL"
  by (auto simp: sdi12_valid_address_def NUL_def)

lemma valid_address_not_query: "sdi12_valid_address a \<Longrightarrow> a \<noteq> CHR ''?''"
  by (auto simp: sdi12_valid_address_def)

lemma acknowledge_sends:
  assumes "cb_send_response (cb ctx)" and "resp_len ctx = 0" and "address ctx \<noteq> NUL"
  shows "handle_acknowledge ctx =
           (SDI12_OK,
            ctx\<lparr>resp_buf := snprintf (resp_buf ctx) SDI12_MAX_RESPONSE_LEN [address ctx, CR, LF],
                bus_sent := bus_sent ctx @ [[address ctx, CR, LF]]\<rparr>)"
proof -
  have "take (strlen (snprintf (resp_buf ctx) SDI12_MAX_RESPONSE_LEN [address ctx, CR, LF]))
          (snprintf (resp_buf ctx) SDI12_MAX_RESPONSE_LEN [address ctx, CR, LF]) = [address ctx, CR, LF]"
    using assms(3) CR_LF_not_NUL
    by (intro sent_text) (auto simp: SDI12_MAX_RESPONSE_LEN_def)
  then show ?thesis
    using assms(1,2) by (simp add: handle_acknowledge_def respond_def send_response_def)
qed

subsection \<open>Break\<close>

text \<open>
  Claim C2, as amended.  From every state \<open>sdi12_sensor_break\<close> leads to
  \<open>SDI12_STATE_READY\<close> and leaves the address, the parameter table and the
  extended-command table as they are.  The \<open>data_available\<close> flag is cleared and
  \<open>data_cache_count\<close> reset to 0 when the state was \<open>SDI12_STATE_MEASURING\<close> or
  \<open>SDI12_STATE_MEASURING_C\<close> (a measurement is aborted); both are left as they are
  otherwise: data that is ready survives a break.
\<close>

theorem break_resets_state:
  "state (sdi12_sensor_break ctx) = SDI12_STATE_READY \<and>
   address (sdi12_sensor_break ctx) = address ctx \<and>
   params (sdi12_sensor_break ctx) = params ctx \<and>
   param_count (sdi12_sensor_break ctx) = param_count ctx \<and>
   xcmds (sdi12_sensor_break ctx) = xcmds ctx \<and>
   xcmd_count (sdi12_sensor_break ctx) = xcmd_count ctx \<and>
   data_available (sdi12_sensor_break ctx) =
     (if state ctx = SDI12_STATE_MEASURING \<or> state ctx = SDI12_STATE_MEASURING_C
      then False else data_available ctx) \<and>
   data_cache_count (sdi12_sensor_break ctx) =
     (if state ctx = SDI12_STATE_MEASURING \<or> state ctx = SDI12_STATE_MEASURING_C
      then 0 else data_cache_count ctx)"
  by (simp add: sdi12_sensor_break_def)

text \<open>Claim C2 as stated fails in \<open>SDI12_STATE_DATA_READY\<close>: after \<open>0M!\<close> the data
  is available, and it still is after a break.\<close>

theorem break_keeps_data_counterexample:
  "state (snd (sdi12_sensor_process test_fmt test_ctx ''0M!'')) = SDI12_STATE_DATA_READY \<and>
   data_available (snd (sdi12_sensor_process test_fmt test_ctx ''0M!'')) \<and>
   data_available (sdi12_sensor_break (snd (sdi12_sensor_process test_fmt test_ctx ''0M!'')))"
  by code_simp

subsection \<open>Completion of a measurement\<close>

text \<open>
  Claim C4, as amended.  When \<open>sdi12_sensor_measurement_done\<close> is called in a state
  other than \<open>SDI12_STATE_MEASURING\<close> and \<open>SDI12_STATE_MEASURING_C\<close>, the state is
  unchanged and nothing is sent (no service request, no response), but the call is not
  ignored: the first \<open>min count SDI12_MAX_PARAMS\<close> values are copied into the data
  cache, \<open>data_cache_count\<close> is set to that number, \<open>data_available\<close> is set, and
  \<open>resp_len\<close> is reset.
\<close>

theorem measurement_done_outside_measuring:
  assumes "state ctx \<noteq> SDI12_STATE_MEASURING" and "state ctx \<noteq> SDI12_STATE_MEASURING_C"
  shows "sdi12_sensor_measurement_done ctx values count =
           (SDI12_OK,
            ctx\<lparr>data_cache := store (data_cache ctx) 0 (take (min count SDI12_MAX_PARAMS) values),
                data_cache_count := min count SDI12_MAX_PARAMS,
                data_available := True,
                resp_len := 0\<rparr>)"
  using assms by (simp add: sdi12_sensor_measurement_done_def Let_def min_def)

text \<open>The call in state \<open>SDI12_STATE_READY\<close>, with one value.\<close>

theorem measurement_done_outside_measuring_witness:
  "state test_ctx = SDI12_STATE_READY \<and>
   fst (sdi12_sensor_measurement_done test_ctx [\<lparr>fvalue = 7, decimals = 0\<rparr>] 1) = SDI12_OK \<and>
   state (snd (sdi12_sensor_measurement_done test_ctx [\<lparr>fvalue = 7, decimals = 0\<rparr>] 1)) = SDI12_STATE_READY \<and>
   bus_sent (snd (sdi12_sensor_measurement_done test_ctx [\<lparr>fvalue = 7, decimals = 0\<rparr>] 1)) = []"
proof -
  have s: "state test_ctx = SDI12_STATE_READY" by code_simp
  have b: "bus_sent test_ctx = []" by code_simp
  show ?thesis
    using measurement_done_outside_measuring [of test_ctx "[\<lparr>fvalue = 7, decimals = 0\<rparr>]" 1] s b
    by simp
qed

text \<open>Claim C4 as stated fails there: the cache, its count and the flag change.\<close>

theorem measurement_done_not_ignored_counterexample:
  "state test_ctx = SDI12_STATE_READY \<and>
   data_cache_count test_ctx = 0 \<and> \<not> data_available test_ctx \<and>
   data_cache_count (snd (sdi12_sensor_measurement_done test_ctx [\<lparr>fvalue = 7, decimals = 0\<rparr>] 1)) = 1 \<and>
   data_available (snd (sdi12_sensor_measurement_done test_ctx [\<lparr>fvalue = 7, decimals = 0\<rparr>] 1)) \<and>
   data_cache (snd (sdi12_sensor_measurement_done test_ctx [\<lparr>fvalue = 7, decimals = 0\<rparr>] 1)) \<noteq> data_cache test_ctx"
  by code_simp

subsection \<open>Addressing\<close>

lemma stripped_length:
  "cmd \<noteq> [] \<Longrightarrow> cmd \<noteq> ''!'' \<Longrightarrow>
   (if cmd ! (length cmd - 1) = CHR ''!'' then length cmd - 1 else length cmd) \<noteq> 0"
  by (cases cmd; cases "tl cmd") auto

lemma wildcard_only:
  "(if cmd ! (length cmd - 1) = CHR ''!'' then length cmd - 1 else length cmd) = 1 \<Longrightarrow>
   cmd ! 0 = CHR ''?'' \<Longrightarrow> cmd = ''?'' \<or> cmd = ''?!''"
  by (cases cmd; cases "tl cmd"; cases "tl (tl cmd)") (auto split: if_splits)

text \<open>
  Claim C1, as amended.  For every command buffer that is not empty and not the bare
  terminator \<open>!\<close>, whose first byte is not the sensor's address and which is not the
  wildcard query (\<open>?\<close> or \<open>?!\<close>), \<open>sdi12_sensor_process\<close> returns
  \<open>SDI12_ERR_NOT_ADDRESSED\<close> and leaves the whole context as it is but for \<open>resp_len\<close>,
  which is reset to 0: nothing is sent, and the state, the address, the data cache,
  \<open>data_available\<close> and the registrations are unchanged.
\<close>

theorem unaddressed_command_is_silent:
  assumes "cmd \<noteq> []"
    and "cmd \<noteq> ''!''"
    and "hd cmd \<noteq> address ctx"
    and "cmd \<noteq> ''?''" and "cmd \<noteq> ''?!''"
  shows "sdi12_sensor_process fmt ctx cmd = (SDI12_ERR_NOT_ADDRESSED, ctx\<lparr>resp_len := 0\<rparr>)"
proof -
  let ?cmdlen = "if cmd ! (length cmd - 1) = CHR ''!'' then length cmd - 1 else length cmd"
  have len: "?cmdlen \<noteq> 0"
    using assms(1,2) by (rule stripped_length)
  have addr: "cmd ! 0 \<noteq> address ctx"
    using assms(1,3) by (simp add: hd_conv_nth)
  have query: "\<not> (?cmdlen = 1 \<and> cmd ! 0 = CHR ''?'')"
    using wildcard_only [of cmd] assms(4,5) by blast
  show ?thesis
    using assms(1) len addr query
    by (simp add: sdi12_sensor_process_def Let_def)
qed

text \<open>The command \<open>1M!\<close> at the sensor of address \<open>0\<close>.\<close>

theorem unaddressed_command_is_silent_witness:
  "sdi12_sensor_process test_fmt test_ctx ''1M!'' = (SDI12_ERR_NOT_ADDRESSED, test_ctx\<lparr>resp_len := 0\<rparr>) \<and>
   bus_sent (snd (sdi12_sensor_process test_fmt test_ctx ''1M!'')) = []"
proof -
  have a: "hd ''1M!'' \<noteq> address test_ctx" by code_simp
  have b: "bus_sent test_ctx = []" by code_simp
  show ?thesis
    using unaddressed_command_is_silent [of "''1M!''" test_ctx test_fmt] a b by simp
qed

text \<open>Claim C1 as stated fails at the buffer \<open>!\<close>: its first byte is neither the
  address nor \<open>?\<close>, and the result is \<open>SDI12_ERR_INVALID_COMMAND\<close>, since the command
  is empty once the terminator is stripped.\<close>

theorem bare_terminator_counterexample:
  "hd ''!'' \<noteq> address test_ctx \<and> hd ''!'' \<noteq> CHR ''?'' \<and>
   fst (sdi12_sensor_process test_fmt test_ctx ''!'') = SDI12_ERR_INVALID_COMMAND"
  by code_simp

subsection \<open>High-volume measurement on an empty group\<close>

text \<open>
  Claim C7 at the sensor of address \<open>0\<close> with no parameter registered: the reply to
  \<open>0HA!\<close>, \<open>0HB!\<close>, \<open>0HAC!\<close> and \<open>0HBC!\<close> is the address, five zeros and CR LF
  (eight bytes, a count of two digits), where the claim has a count of three digits
  (\<open>0000000\<close> CR LF).  With two parameters in the group the count has three digits.
\<close>

theorem highvol_empty_group_reply:
  "bus_sent (snd (sdi12_sensor_process test_fmt test_ctx0 ''0HA!'')) = [''000000'' @ [CR, LF]] \<and>
   length (last (bus_sent (snd (sdi12_sensor_process test_fmt test_ctx0 ''0HA!'')))) = 8 \<and>
   count_group test_ctx0 0 = 0 \<and>
   bus_sent (snd (sdi12_sensor_process test_fmt test_ctx0 ''0HB!'')) = [''000000'' @ [CR, LF]] \<and>
   bus_sent (snd (sdi12_sensor_process test_fmt test_ctx0 ''0HAC!'')) = [''000000'' @ [CR, LF]] \<and>
   bus_sent (snd (sdi12_sensor_process test_fmt test_ctx0 ''0HBC!'')) = [''000000'' @ [CR, LF]] \<and>
   bus_sent (snd (sdi12_sensor_process test_fmt test_ctx ''0HA!'')) = [''0000002'' @ [CR, LF]]"
  by code_simp

subsection \<open>The wildcard query during a concurrent measurement\<close>

lemma process_not_own_address:
  assumes "cmd \<noteq> []" and "hd cmd \<noteq> address ctx"
  shows "state (snd (sdi12_sensor_process fmt ctx cmd)) = state ctx \<and>
         data_available (snd (sdi12_sensor_process fmt ctx cmd)) = data_available ctx \<and>
         data_cache_count (snd (sdi12_sensor_process fmt ctx cmd)) = data_cache_count ctx"
proof -
  have "cmd ! 0 \<noteq> address ctx"
    using assms by (simp add: hd_conv_nth)
  then show ?thesis
    by (simp add: sdi12_sensor_process_def Let_def handle_acknowledge_def respond_def
        send_response_def)
qed

text \<open>
  Claim C10.  In state \<open>SDI12_STATE_MEASURING_C\<close> (the address being valid and
  \<open>send_response\<close> installed, as \<open>sdi12_sensor_init\<close> requires) the query \<open>?!\<close> is
  answered with the address and CR LF, and the context is otherwise unchanged but for
  the response buffer: the state, \<open>data_available\<close> and \<open>data_cache_count\<close> stay.  No
  command whose first byte differs from the address changes these three; the
  acknowledge command \<open>a!\<close> with the sensor's own address aborts the measurement.
\<close>

theorem wildcard_query_keeps_concurrent:
  assumes "state ctx = SDI12_STATE_MEASURING_C"
    and "sdi12_valid_address (address ctx)"
    and "cb_send_response (cb ctx)"
  shows "sdi12_sensor_process fmt ctx ''?!'' =
           (SDI12_OK,
            ctx\<lparr>resp_len := 0,
                resp_buf := snprintf (resp_buf ctx) SDI12_MAX_RESPONSE_LEN [address ctx, CR, LF],
                bus_sent := bus_sent ctx @ [[address ctx, CR, LF]]\<rparr>) \<and>
         (cmd \<noteq> [] \<and> hd cmd \<noteq> address ctx \<longrightarrow>
            state (snd (sdi12_sensor_process fmt ctx cmd)) = SDI12_STATE_MEASURING_C \<and>
            data_available (snd (sdi12_sensor_process fmt ctx cmd)) = data_available ctx \<and>
            data_cache_count (snd (sdi12_sensor_process fmt ctx cmd)) = data_cache_count ctx) \<and>
         state (snd (sdi12_sensor_process fmt ctx [address ctx, CHR ''!''])) = SDI12_STATE_READY \<and>
         \<not> data_available (snd (sdi12_sensor_process fmt ctx [address ctx, CHR ''!''])) \<and>
         data_cache_count (snd (sdi12_sensor_process fmt ctx [address ctx, CHR ''!''])) = 0"
proof -
  have q: "address ctx \<noteq> CHR ''?''" and z: "address ctx \<noteq> NUL"
    using assms(2) by (simp_all add: valid_address_not_query valid_address_not_NUL)
  have "handle_acknowledge (ctx\<lparr>resp_len := 0\<rparr>) =
          (SDI12_OK,
           ctx\<lparr>resp_len := 0,
               resp_buf := snprintf (resp_buf ctx) SDI12_MAX_RESPONSE_LEN [address ctx, CR, LF],
               bus_sent := bus_sent ctx @ [[address ctx, CR, LF]]\<rparr>)"
    using acknowledge_sends [of "ctx\<lparr>resp_len := 0\<rparr>"] assms(3) z by simp
  then have query: "sdi12_sensor_process fmt ctx ''?!'' =
           (SDI12_OK,
            ctx\<lparr>resp_len := 0,
                resp_buf := snprintf (resp_buf ctx) SDI12_MAX_RESPONSE_LEN [address ctx, CR, LF],
                bus_sent := bus_sent ctx @ [[address ctx, CR, LF]]\<rparr>)"
    using q by (simp add: sdi12_sensor_process_def Let_def)
  have other: "cmd \<noteq> [] \<and> hd cmd \<noteq> address ctx \<longrightarrow>
           state (snd (sdi12_sensor_process fmt ctx cmd)) = SDI12_STATE_MEASURING_C \<and>
           data_available (snd (sdi12_sensor_process fmt ctx cmd)) = data_available ctx \<and>
           data_cache_count (snd (sdi12_sensor_process fmt ctx cmd)) = data_cache_count ctx"
    using process_not_own_address [of cmd ctx fmt] assms(1) by simp
  have own: "state (snd (sdi12_sensor_process fmt ctx [address ctx, CHR ''!''])) = SDI12_STATE_READY \<and>
         \<not> data_available (snd (sdi12_sensor_process fmt ctx [address ctx, CHR ''!''])) \<and>
         data_cache_count (snd (sdi12_sensor_process fmt ctx [address ctx, CHR ''!''])) = 0"
    using assms(1)
    by (simp add: sdi12_sensor_process_def Let_def handle_acknowledge_def respond_def
        send_response_def)
  show ?thesis
    using query other own by blast
qed

text \<open>The query, and the command \<open>1!\<close> of another sensor, while the test sensor measures
  concurrently.\<close>

theorem wildcard_query_keeps_concurrent_witness:
  "state test_ctx_concurrent = SDI12_STATE_MEASURING_C \<and>
   fst (sdi12_sensor_process test_fmt test_ctx_concurrent ''?!'') = SDI12_OK \<and>
   bus_sent (snd (sdi12_sensor_process test_fmt test_ctx_concurrent ''?!'')) =
     bus_sent test_ctx_concurrent @ [[CHR ''0'', CR, LF]] \<and>
   state (snd (sdi12_sensor_process test_fmt test_ctx_concurrent ''?!'')) = SDI12_STATE_MEASURING_C \<and>
   state (snd (sdi12_sensor_process test_fmt test_ctx_concurrent ''1!'')) = SDI12_STATE_MEASURING_C \<and>
   state (snd (sdi12_sensor_process test_fmt test_ctx_concurrent ''0!'')) = SDI12_STATE_READY"
proof -
  have s: "state test_ctx_concurrent = SDI12_STATE_MEASURING_C"
    by code_simp
  have v: "sdi12_valid_address (address test_ctx_concurrent)"
    by code_simp
  have c: "cb_send_response (cb test_ctx_concurrent)"
    by code_simp
  have a: "address test_ctx_concurrent = CHR ''0''"
    by code_simp
  show ?thesis
    using wildcard_query_keeps_concurrent [OF s v c, of test_fmt "''1!''"] s a
    by simp
qed

subsection \<open>Data requests after a high-volume binary measurement without the binary hook\<close>













































subsection \<open>The counts of the parameter table and of the data cache\<close>

lemma keeps_counts_trans:
  "keeps_counts a b \<Longrightarrow> keeps_counts b c \<Longrightarrow> keeps_counts a c"
  by (auto simp: keeps_counts_def)

lemma keeps_counts_cache_inv: "keeps_counts c c' \<Longrightarrow> cache_inv c \<Longrightarrow> cache_inv c'"
  by (auto simp: keeps_counts_def cache_inv_def)

lemma keeps_counts_bounds_inv: "keeps_counts c c' \<Longrightarrow> bounds_inv c \<Longrightarrow> bounds_inv c'"
  by (auto simp: keeps_counts_def bounds_inv_def)

lemma counts_send_response:
  "param_count (send_response c) = param_count c"
  "data_cache_count (send_response c) = data_cache_count c"
  by (simp_all add: send_response_def Let_def)

lemma counts_respond:
  "param_count (respond c s) = param_count c"
  "data_cache_count (respond c s) = data_cache_count c"
  by (simp_all add: respond_def)

lemma counts_format_data_page:
  "param_count (snd (format_data_page fmt c p m)) = param_count c"
  "data_cache_count (snd (format_data_page fmt c p m)) = data_cache_count c"
  by (simp_all add: format_data_page_def Let_def)

lemma length_collect_group_indices:
  "length (collect_group_indices c g m) \<le> param_count c"
  "length (collect_group_indices c g m) \<le> m"
proof -
  have "length (filter (in_group g) (param_slots c)) \<le> length (param_slots c)"
    by (rule length_filter_le)
  also have "\<dots> \<le> param_count c"
    by (simp add: param_slots_def)
  finally show "length (collect_group_indices c g m) \<le> param_count c"
    by (simp add: collect_group_indices_def)
  show "length (collect_group_indices c g m) \<le> m"
    by (simp add: collect_group_indices_def)
qed

lemma counts_read_group_sync:
  "param_count (read_group_sync c g) = param_count c"
  "param_count c \<le> n \<Longrightarrow> data_cache_count (read_group_sync c g) \<le> n"
  "data_cache_count (read_group_sync c g) \<le> SDI12_MAX_PARAMS"
proof -
  show "param_count (read_group_sync c g) = param_count c"
    by (simp add: read_group_sync_def Let_def)
  have le: "data_cache_count (read_group_sync c g) \<le> length (collect_group_indices c g SDI12_MAX_PARAMS)"
    by (simp add: read_group_sync_def Let_def split: option.split)
  show "data_cache_count (read_group_sync c g) \<le> SDI12_MAX_PARAMS"
    using le length_collect_group_indices(2) [of c g SDI12_MAX_PARAMS] by simp
  show "data_cache_count (read_group_sync c g) \<le> n" if "param_count c \<le> n"
    using le length_collect_group_indices(1) [of c g SDI12_MAX_PARAMS] that by simp
qed

lemmas counts_simps = counts_send_response counts_respond counts_format_data_page
  counts_read_group_sync

lemma keeps_acknowledge: "keeps_counts c (snd (handle_acknowledge c))"
  by (simp add: keeps_counts_def handle_acknowledge_def counts_simps)

lemma keeps_identify: "keeps_counts c (snd (handle_identify c))"
  by (simp add: keeps_counts_def handle_identify_def counts_simps)

lemma keeps_highvol_stub: "keeps_counts c (snd (handle_highvol_stub c))"
  by (simp add: keeps_counts_def handle_highvol_stub_def counts_simps)

lemma keeps_change_address: "keeps_counts c (snd (handle_change_address c a))"
  by (simp add: keeps_counts_def handle_change_address_def Let_def counts_simps)

lemma keeps_empty_binary_packet: "keeps_counts c (snd (empty_binary_packet c))"
  by (simp add: keeps_counts_def empty_binary_packet_def Let_def counts_simps)

lemma keeps_send_binary_data: "keeps_counts c (snd (handle_send_binary_data c p))"
  using keeps_empty_binary_packet [of c]
  by (simp add: keeps_counts_def handle_send_binary_data_def Let_def counts_simps
      split: option.split)

lemma keeps_send_data: "keeps_counts c (snd (handle_send_data fmt c p))"
  by (simp add: keeps_counts_def handle_send_data_def Let_def counts_simps split: option.split)

lemma keeps_continuous: "keeps_counts c (snd (handle_continuous fmt c i w))"
  by (simp add: keeps_counts_def handle_continuous_def Let_def counts_simps)

lemma keeps_measurement: "keeps_counts c (snd (handle_measurement c g w t))"
  by (simp add: keeps_counts_def handle_measurement_def Let_def counts_simps split: option.split)

lemma keeps_extended: "keeps_counts c (snd (handle_extended c cmd n))"
  by (simp add: keeps_counts_def handle_extended_def Let_def counts_simps split: option.split)

lemma keeps_identify_measurement: "keeps_counts c (snd (handle_identify_measurement c cmd n))"
  by (simp add: keeps_counts_def handle_identify_measurement_def Let_def counts_simps
      split: option.split)


lemmas keeps_handlers = keeps_acknowledge keeps_identify keeps_highvol_stub keeps_change_address
  keeps_send_binary_data keeps_send_data keeps_continuous keeps_measurement keeps_extended
  keeps_identify_measurement

lemma keeps_counts_refl: "keeps_counts c c"
  by (simp add: keeps_counts_def)

lemma keeps_dispatch: "keeps_counts c (snd (dispatch fmt c cmd n))"
  unfolding dispatch_def Let_def
  by (simp add: keeps_handlers keeps_counts_refl)

lemma keeps_process: "keeps_counts c (snd (sdi12_sensor_process fmt c cmd))"
proof -
  let ?c0 = "c\<lparr>resp_len := 0\<rparr>"
  let ?c1 = "c\<lparr>resp_len := 0, state := SDI12_STATE_READY, data_available := False,
              data_cache_count := 0\<rparr>"
  have k0: "keeps_counts c ?c0" and k1: "keeps_counts c ?c1"
    by (simp_all add: keeps_counts_def)
  have h0: "keeps_counts c (snd (handle_acknowledge ?c0))"
    and h1: "keeps_counts c (snd (handle_acknowledge ?c1))"
    and d0: "keeps_counts c (snd (dispatch fmt ?c0 cmd n))"
    and d1: "keeps_counts c (snd (dispatch fmt ?c1 cmd n))" for n
    using k0 k1 keeps_acknowledge keeps_dispatch keeps_counts_trans by blast+
  show ?thesis
    unfolding sdi12_sensor_process_def Let_def
    by (simp add: keeps_counts_refl k0 h0 h1 d0 d1)
qed

text \<open>
  Claim C5, as amended.  After \<open>sdi12_sensor_init\<close> the invariant \<open>data_cache_count \<le>
  param_count \<le> SDI12_MAX_PARAMS\<close> holds.  It is preserved by
  \<open>sdi12_sensor_register_param\<close>, \<open>sdi12_sensor_process\<close> and \<open>sdi12_sensor_break\<close>, and
  by \<open>sdi12_sensor_measurement_done\<close> when \<open>min count SDI12_MAX_PARAMS \<le> param_count\<close>.
  For any \<open>count\<close> argument, \<open>sdi12_sensor_measurement_done\<close> (like the other
  operations) preserves the two bounds \<open>data_cache_count \<le> SDI12_MAX_PARAMS\<close> and
  \<open>param_count \<le> SDI12_MAX_PARAMS\<close>: it clamps the count to the capacity of the cache,
  not to the number of parameters.
\<close>

theorem cache_count_invariants:
  "(sdi12_sensor_init addr idn cbs = Inr ctx0 \<longrightarrow> cache_inv ctx0 \<and> bounds_inv ctx0) \<and>
   (cache_inv ctx \<longrightarrow>
      cache_inv (snd (sdi12_sensor_register_param ctx g shef_arg units_arg decimals_arg)) \<and>
      cache_inv (snd (sdi12_sensor_process fmt ctx cmd)) \<and>
      cache_inv (sdi12_sensor_break ctx)) \<and>
   (cache_inv ctx \<and> min count SDI12_MAX_PARAMS \<le> param_count ctx \<longrightarrow>
      cache_inv (snd (sdi12_sensor_measurement_done ctx values count))) \<and>
   (bounds_inv ctx \<longrightarrow>
      bounds_inv (snd (sdi12_sensor_register_param ctx g shef_arg units_arg decimals_arg)) \<and>
      bounds_inv (snd (sdi12_sensor_process fmt ctx cmd)) \<and>
      bounds_inv (sdi12_sensor_break ctx) \<and>
      bounds_inv (snd (sdi12_sensor_measurement_done ctx values count)))"
proof (intro conjI impI)
  assume "sdi12_sensor_init addr idn cbs = Inr ctx0"
  then have "param_count ctx0 = 0 \<and> data_cache_count ctx0 = 0"
    by (auto simp: sdi12_sensor_init_def split: if_splits)
  then show "cache_inv ctx0" and "bounds_inv ctx0"
    by (simp_all add: cache_inv_def bounds_inv_def)
next
  assume "cache_inv ctx"
  then show "cache_inv (snd (sdi12_sensor_register_param ctx g shef_arg units_arg decimals_arg))"
    by (simp add: cache_inv_def sdi12_sensor_register_param_def)
next
  assume "cache_inv ctx"
  then show "cache_inv (snd (sdi12_sensor_process fmt ctx cmd))"
    using keeps_process keeps_counts_cache_inv by blast
next
  assume "cache_inv ctx"
  then show "cache_inv (sdi12_sensor_break ctx)"
    by (simp add: cache_inv_def sdi12_sensor_break_def Let_def)
next
  assume "cache_inv ctx \<and> min count SDI12_MAX_PARAMS \<le> param_count ctx"
  then show "cache_inv (snd (sdi12_sensor_measurement_done ctx values count))"
    by (simp add: cache_inv_def sdi12_sensor_measurement_done_def Let_def min_def
        counts_send_response counts_respond split: if_splits)
next
  assume "bounds_inv ctx"
  then show "bounds_inv (snd (sdi12_sensor_register_param ctx g shef_arg units_arg decimals_arg))"
    by (simp add: bounds_inv_def sdi12_sensor_register_param_def)
next
  assume "bounds_inv ctx"
  then show "bounds_inv (snd (sdi12_sensor_process fmt ctx cmd))"
    using keeps_process keeps_counts_bounds_inv by blast
next
  assume "bounds_inv ctx"
  then show "bounds_inv (sdi12_sensor_break ctx)"
    by (simp add: bounds_inv_def sdi12_sensor_break_def Let_def)
next
  assume "bounds_inv ctx"
  then show "bounds_inv (snd (sdi12_sensor_measurement_done ctx values count))"
    by (simp add: bounds_inv_def sdi12_sensor_measurement_done_def Let_def
        counts_send_response counts_respond)
qed

lemma init_test: "sdi12_sensor_init (CHR ''0'') test_ident test_callbacks = Inr test_ctx0"
  by (simp add: test_ctx0_def sdi12_sensor_init_def test_callbacks_def sdi12_valid_address_def)

lemma test_ctx_counts: "param_count test_ctx = 2" "data_cache_count test_ctx = 0"
  by code_simp+

text \<open>The operations at the test sensor with its two parameters.\<close>

theorem cache_count_invariants_witness:
  "cache_inv test_ctx0 \<and> cache_inv test_ctx \<and>
   cache_inv (snd (sdi12_sensor_register_param test_ctx 1 ''PA'' ''kPa'' 1)) \<and>
   cache_inv (snd (sdi12_sensor_process test_fmt test_ctx ''0M!'')) \<and>
   cache_inv (sdi12_sensor_break test_ctx) \<and>
   cache_inv (snd (sdi12_sensor_measurement_done test_ctx [\<lparr>fvalue = 7, decimals = 0\<rparr>] 1)) \<and>
   bounds_inv (snd (sdi12_sensor_measurement_done test_ctx [\<lparr>fvalue = 7, decimals = 0\<rparr>] 1))"
proof -
  have c: "cache_inv test_ctx" and b: "bounds_inv test_ctx"
    by (simp_all add: cache_inv_def bounds_inv_def test_ctx_counts SDI12_MAX_PARAMS_def)
  have m: "min 1 SDI12_MAX_PARAMS \<le> param_count test_ctx"
    by (simp add: test_ctx_counts SDI12_MAX_PARAMS_def)
  show ?thesis
    using cache_count_invariants [of "CHR ''0''" test_ident test_callbacks test_ctx0 test_ctx
        1 "''PA''" "''kPa''" 1 test_fmt "''0M!''" 1 "[\<lparr>fvalue = 7, decimals = 0\<rparr>]"]
      init_test c b m
    by simp
qed

text \<open>Claim C5 as stated fails for \<open>sdi12_sensor_measurement_done\<close>: with no
  parameter registered, one value reported leaves \<open>data_cache_count = 1 > 0 =
  param_count\<close>.\<close>

theorem cache_exceeds_params_counterexample:
  "cache_inv test_ctx0 \<and>
   \<not> cache_inv (snd (sdi12_sensor_measurement_done test_ctx0 [\<lparr>fvalue = 7, decimals = 0\<rparr>] 1))"
  by code_simp

section \<open>Properties of the master\<close>

subsection \<open>Acknowledge\<close>

lemma trim_crlf_le: "fst (trim_crlf buf n) \<le> n"
  by (induction n arbitrary: buf) (auto simp: le_SucI)

lemma trim_crlf_keeps:
  "i < fst (trim_crlf buf n) \<Longrightarrow> snd (trim_crlf buf n) ! i = buf ! i"
proof (induction n arbitrary: buf)
  case 0
  then show ?case by simp
next
  case (Suc n)
  show ?case
  proof (cases "buf ! n = CR \<or> buf ! n = LF")
    case True
    with Suc.prems have i: "i < fst (trim_crlf (buf[n := NUL]) n)"
      by simp
    have "i \<noteq> n"
      using i trim_crlf_le [of "buf[n := NUL]" n] by simp
    with Suc.IH [OF i] True show ?thesis
      by simp
  next
    case False
    then show ?thesis by simp
  qed
qed

lemma trim_crlf_head:
  "0 < n \<Longrightarrow> buf ! 0 \<noteq> CR \<Longrightarrow> buf ! 0 \<noteq> LF \<Longrightarrow> 0 < fst (trim_crlf buf n)"
proof (induction n arbitrary: buf)
  case 0
  then show ?case by simp
next
  case (Suc n)
  show ?case
  proof (cases "n = 0")
    case True
    with Suc.prems show ?thesis by simp
  next
    case False
    with Suc show ?thesis by simp
  qed
qed

lemma valid_address_not_CR_LF: "sdi12_valid_address a \<Longrightarrow> a \<noteq> CR \<and> a \<noteq> LF"
  by (auto simp: sdi12_valid_address_def CR_def LF_def)

lemma present_iff_first_byte:
  assumes "sdi12_valid_address addr" and "0 < n"
  shows "(fst (trim_crlf buf n) \<ge> 1 \<and> snd (trim_crlf buf n) ! 0 = addr) = (buf ! 0 = addr)"
proof (cases "buf ! 0 = addr")
  case True
  then have "0 < fst (trim_crlf buf n)"
    using assms valid_address_not_CR_LF [of addr] by (intro trim_crlf_head) auto
  then show ?thesis
    using True trim_crlf_keeps [of 0 buf n] by simp
next
  case False
  then show ?thesis
    using trim_crlf_keeps [of 0 buf n] by auto
qed

lemma send_command_ack:
  "send_command ctx [addr, CHR ''!''] =
     (SDI12_OK,
      ctx\<lparr>cmd_buf := store (cmd_buf ctx) 0 [addr, CHR ''!'', NUL],
          tx_sent := tx_sent ctx @ [[addr, CHR ''!'']],
          dir_log := dir_log ctx @ [SDI12_DIR_TX, SDI12_DIR_RX]\<rparr>)"
  by (simp add: send_command_def Let_def SDI12_CMD_MAX_CHARS_def SDI12_MAX_COMMAND_LEN_def store_def)

lemma transact_ack_timeout:
  assumes "rx_pending ctx = [] \<or> hd (rx_pending ctx) = []"
  shows "fst (sdi12_master_transact ctx [addr, CHR ''!''] t) = SDI12_ERR_TIMEOUT"
  using assms
  by (auto simp: sdi12_master_transact_def send_command_ack recv_response_def cb_recv_def Let_def
      split: list.splits)

lemma transact_ack_reply:
  assumes "rx_pending ctx = r # rs" and "r \<noteq> []"
  shows "fst (sdi12_master_transact ctx [addr, CHR ''!''] t) = SDI12_OK"
    and "m_resp_len (snd (sdi12_master_transact ctx [addr, CHR ''!''] t)) = length (take 85 r)"
    and "m_resp_buf (snd (sdi12_master_transact ctx [addr, CHR ''!''] t)) ! 0 = hd r"
proof -
  have ne: "take 85 r \<noteq> []"
    using assms(2) by (cases r) simp_all
  show "fst (sdi12_master_transact ctx [addr, CHR ''!''] t) = SDI12_OK"
    using assms(1) ne
    by (simp add: sdi12_master_transact_def send_command_ack recv_response_def cb_recv_def Let_def
        SDI12_RESP_MAX_CHARS_def SDI12_MAX_RESPONSE_LEN_def)
  show "m_resp_len (snd (sdi12_master_transact ctx [addr, CHR ''!''] t)) = length (take 85 r)"
    using assms(1) ne
    by (simp add: sdi12_master_transact_def send_command_ack recv_response_def cb_recv_def Let_def
        SDI12_RESP_MAX_CHARS_def SDI12_MAX_RESPONSE_LEN_def)
  have "(store (m_resp_buf ctx) 0 (take 85 r))[length (take 85 r) := NUL] ! 0 = hd r"
    using assms(2) by (cases r) (simp_all add: store_def)
  then show "m_resp_buf (snd (sdi12_master_transact ctx [addr, CHR ''!''] t)) ! 0 = hd r"
    using assms(1) ne
    by (simp add: sdi12_master_transact_def send_command_ack recv_response_def cb_recv_def Let_def
        SDI12_RESP_MAX_CHARS_def SDI12_MAX_RESPONSE_LEN_def)
qed

text \<open>
  Claim C8.  For every valid address: when \<open>recv\<close> yields no byte (nothing pending, or
  an empty delivery), \<open>sdi12_master_acknowledge\<close> returns \<open>SDI12_OK\<close> with \<open>*present\<close>
  false; a result \<open>e\<close> of the transaction other than the timeout and \<open>SDI12_OK\<close> is
  returned as it is, with \<open>*present\<close> untouched; and when a reply has been received the
  result is \<open>SDI12_OK\<close> and \<open>*present\<close> says whether the first byte of the reply is the
  address.
\<close>

theorem acknowledge_presence:
  assumes "sdi12_valid_address addr"
  shows "(rx_pending ctx = [] \<or> hd (rx_pending ctx) = [] \<longrightarrow>
            fst (sdi12_master_acknowledge ctx addr present) = SDI12_OK \<and>
            fst (snd (sdi12_master_acknowledge ctx addr present)) = False) \<and>
         (e \<noteq> SDI12_ERR_TIMEOUT \<and> e \<noteq> SDI12_OK \<longrightarrow>
            acknowledge_reply (e, c) addr present = (e, present, c)) \<and>
         (rx_pending ctx \<noteq> [] \<and> hd (rx_pending ctx) \<noteq> [] \<longrightarrow>
            fst (sdi12_master_acknowledge ctx addr present) = SDI12_OK \<and>
            fst (snd (sdi12_master_acknowledge ctx addr present)) = (hd (hd (rx_pending ctx)) = addr))"
proof (intro conjI impI)
  assume "rx_pending ctx = [] \<or> hd (rx_pending ctx) = []"
  then have t: "fst (sdi12_master_transact ctx [addr, CHR ''!''] SDI12_RESPONSE_TIMEOUT_MS) = SDI12_ERR_TIMEOUT"
    by (rule transact_ack_timeout)
  show "fst (sdi12_master_acknowledge ctx addr present) = SDI12_OK"
    using assms t by (simp add: sdi12_master_acknowledge_def acknowledge_reply_def Let_def)
  show "fst (snd (sdi12_master_acknowledge ctx addr present)) = False"
    using assms t by (simp add: sdi12_master_acknowledge_def acknowledge_reply_def Let_def)
next
  assume "e \<noteq> SDI12_ERR_TIMEOUT \<and> e \<noteq> SDI12_OK"
  then show "acknowledge_reply (e, c) addr present = (e, present, c)"
    by (simp add: acknowledge_reply_def)
next
  assume "rx_pending ctx \<noteq> [] \<and> hd (rx_pending ctx) \<noteq> []"
  then obtain r rs where r: "rx_pending ctx = r # rs" "r \<noteq> []"
    by (cases "rx_pending ctx") auto
  let ?t = "sdi12_master_transact ctx [addr, CHR ''!''] SDI12_RESPONSE_TIMEOUT_MS"
  have ok: "fst ?t = SDI12_OK"
    and len: "m_resp_len (snd ?t) = length (take 85 r)"
    and hd: "m_resp_buf (snd ?t) ! 0 = hd r"
    using transact_ack_reply [OF r] by simp_all
  have pos: "0 < m_resp_len (snd ?t)"
    using len r(2) by (cases r) simp_all
  show "fst (sdi12_master_acknowledge ctx addr present) = SDI12_OK"
    using assms ok by (simp add: sdi12_master_acknowledge_def acknowledge_reply_def Let_def)
  show "fst (snd (sdi12_master_acknowledge ctx addr present)) = (hd (hd (rx_pending ctx)) = addr)"
    using assms ok present_iff_first_byte [OF assms pos, of "m_resp_buf (snd ?t)"] hd r(1)
    by (simp add: sdi12_master_acknowledge_def acknowledge_reply_def Let_def)
qed

text \<open>Address \<open>0\<close>: on a silent bus, on a failed transaction, and with the reply
  \<open>0\<close> CR LF.\<close>

theorem acknowledge_presence_witness:
  "fst (sdi12_master_acknowledge zeroed_master_ctx (CHR ''0'') True) = SDI12_OK \<and>
   fst (snd (sdi12_master_acknowledge zeroed_master_ctx (CHR ''0'') True)) = False \<and>
   acknowledge_reply (SDI12_ERR_INVALID_COMMAND, zeroed_master_ctx) (CHR ''0'') True =
     (SDI12_ERR_INVALID_COMMAND, True, zeroed_master_ctx) \<and>
   fst (sdi12_master_acknowledge (zeroed_master_ctx\<lparr>rx_pending := [[CHR ''0'', CR, LF]]\<rparr>) (CHR ''0'') False)
     = SDI12_OK \<and>
   fst (snd (sdi12_master_acknowledge (zeroed_master_ctx\<lparr>rx_pending := [[CHR ''0'', CR, LF]]\<rparr>)
               (CHR ''0'') False)) = True"
proof -
  have v: "sdi12_valid_address (CHR ''0'')"
    by (simp add: sdi12_valid_address_def)
  have p0: "rx_pending zeroed_master_ctx = []"
    by (simp add: zeroed_master_ctx_def)
  show ?thesis
    using acknowledge_presence [OF v, of zeroed_master_ctx True SDI12_ERR_INVALID_COMMAND zeroed_master_ctx]
      acknowledge_presence [OF v, of "zeroed_master_ctx\<lparr>rx_pending := [[CHR ''0'', CR, LF]]\<rparr>" False
        SDI12_ERR_INVALID_COMMAND zeroed_master_ctx]
      p0
    by simp
qed

subsection \<open>Data values\<close>

lemma skip_plus_dot: "skip_spaces ''+.'' 2 0 = 0"
  by code_simp

lemma scan_plus_dot: "scan_number ''+.'' 2 (Suc 0) = 2"
  by code_simp

lemma skip_plus: "skip_spaces ''+'' (Suc 0) 0 = 0"
  by code_simp

lemma scan_plus: "scan_number ''+'' (Suc 0) (Suc 0) = Suc 0"
  by code_simp

text \<open>
  Claim C9 at the input \<open>+.\<close>: the token has no digit after its sign, and an entry is
  recorded for it all the same (the value that \<open>strtod\<close> gives for \<open>+.\<close>, with no
  decimals), since the test \<open>pos > start + 1\<close> counts the dot.  A bare sign is skipped.
\<close>

theorem sign_and_dot_is_recorded:
  "sdi12_master_parse_data_values strtod ''+.'' 2 10 False =
     (SDI12_OK, [\<lparr>fvalue = strtod ''+.'', decimals = 0\<rparr>]) \<and>
   sdi12_master_parse_data_values strtod ''+'' 1 10 False = (SDI12_OK, [])"
proof
  show "sdi12_master_parse_data_values strtod ''+.'' 2 10 False =
     (SDI12_OK, [\<lparr>fvalue = strtod ''+.'', decimals = 0\<rparr>])"
    apply (simp add: sdi12_master_parse_data_values_def)
    apply (subst parse_values_loop.simps)
    apply (simp add: skip_plus_dot scan_plus_dot)
    apply (subst parse_values_loop.simps)
    apply (simp add: token_value_def SDI12_VALUE_MAX_CHARS_def memchr_def)
    done
  show "sdi12_master_parse_data_values strtod ''+'' 1 10 False = (SDI12_OK, [])"
    apply (simp add: sdi12_master_parse_data_values_def)
    apply (subst parse_values_loop.simps)
    apply (simp add: skip_plus scan_plus)
    apply (subst parse_values_loop.simps)
    apply simp
    done
qed


end
